theory Spec2Isabelle
  imports Complex_Main "HOL-Library.Word"
begin

section \<open>Python values\<close>

text \<open>
  What \<^verbatim>\<open>response.json()\<close> returns: \<^verbatim>\<open>None\<close>, a bool, an int, a float, a str, a list or a
  dict. A dict is kept as the list of its items in insertion order; its keys are distinct,
  and lookup takes the first binding of a key. A float is carried by its value, the
  decoder having rounded the text of the number to it already.
\<close>

datatype json =
    JNull
  | JBool bool
  | JInt int
  | JFloat real
  | JStr string
  | JArr "json list"
  | JObj "(string \<times> json) list"

text \<open>
  The exceptions the two modules can meet. \<^verbatim>\<open>RequestException\<close> stands for the connection
  errors, timeouts and the \<^verbatim>\<open>HTTPError\<close> of \<^verbatim>\<open>raise_for_status()\<close>; \<^verbatim>\<open>JSONDecodeError\<close> is the
  one \<^verbatim>\<open>response.json()\<close> raises, \<^verbatim>\<open>requests.exceptions.JSONDecodeError\<close>, which derives from
  \<^verbatim>\<open>InvalidJSONError\<close> and so from \<^verbatim>\<open>RequestException\<close> (requests 2.27 and later).
  \<^verbatim>\<open>OutOfBoundsDatetime\<close> is the one of pandas, and \<^verbatim>\<open>RenderError\<close> stands for whatever
  matplotlib raises.
\<close>

datatype exn =
    RequestException
  | JSONDecodeError
  | KeyError
  | TypeError
  | IndexError
  | AttributeError
  | ValueError
  | OutOfBoundsDatetime
  | RenderError

text \<open>\<^verbatim>\<open>isinstance(e, requests.exceptions.RequestException)\<close>\<close>

fun is_RequestException :: "exn \<Rightarrow> bool" where
  "is_RequestException RequestException = True"
| "is_RequestException JSONDecodeError = True"
| "is_RequestException KeyError = False"
| "is_RequestException TypeError = False"
| "is_RequestException IndexError = False"
| "is_RequestException AttributeError = False"
| "is_RequestException ValueError = False"
| "is_RequestException OutOfBoundsDatetime = False"
| "is_RequestException RenderError = False"

subsection \<open>Strings\<close>

text \<open>
  A str is a \<^typ>\<open>string\<close>; a character outside ASCII is the bytes of its UTF-8 encoding,
  each with its top bit set. On a str of ASCII characters \<^verbatim>\<open>lower\<close>, \<^verbatim>\<open>upper\<close> and \<^verbatim>\<open>title\<close>
  change the letters A-Z and a-z and nothing else, which the tables below compute. On any
  other str they follow the Unicode tables of the interpreter, which belong to the world.
\<close>

definition ascii_str :: "string \<Rightarrow> bool" where
  "ascii_str s = list_all (\<lambda>c. \<not> digit7 c) s"

definition lower_char :: "char \<Rightarrow> char" where
  "lower_char c =
     (case map_of (zip ''ABCDEFGHIJKLMNOPQRSTUVWXYZ'' ''abcdefghijklmnopqrstuvwxyz'') c of
        Some d \<Rightarrow> d
      | None \<Rightarrow> c)"

definition upper_char :: "char \<Rightarrow> char" where
  "upper_char c =
     (case map_of (zip ''abcdefghijklmnopqrstuvwxyz'' ''ABCDEFGHIJKLMNOPQRSTUVWXYZ'') c of
        Some d \<Rightarrow> d
      | None \<Rightarrow> c)"

definition is_cased :: "char \<Rightarrow> bool" where
  "is_cased c = (c \<in> set ''ABCDEFGHIJKLMNOPQRSTUVWXYZabcdefghijklmnopqrstuvwxyz'')"

text \<open>
  \<^verbatim>\<open>str.title()\<close> on ASCII: a cased character is upper-cased when the character before it
  is not cased, and lower-cased otherwise.
\<close>

fun title_from :: "bool \<Rightarrow> string \<Rightarrow> string" where
  "title_from previous_is_cased [] = []"
| "title_from previous_is_cased (c # cs) =
     (if previous_is_cased then lower_char c else upper_char c) # title_from (is_cased c) cs"

fun startswith :: "string \<Rightarrow> string \<Rightarrow> bool" where
  "startswith s [] = True"
| "startswith [] (p # ps) = False"
| "startswith (c # cs) (p # ps) = (c = p \<and> startswith cs ps)"

text \<open>\<^verbatim>\<open>sub in s\<close> for two strs: \<^verbatim>\<open>sub\<close> occurs in \<^verbatim>\<open>s\<close> as a contiguous piece.\<close>

fun str_in :: "string \<Rightarrow> string \<Rightarrow> bool" where
  "str_in sub [] = (sub = [])"
| "str_in sub (c # cs) = (startswith (c # cs) sub \<or> str_in sub cs)"

text \<open>\<^verbatim>\<open>sep.join(xs)\<close>\<close>

fun str_join :: "string \<Rightarrow> string list \<Rightarrow> string" where
  "str_join sep [] = []"
| "str_join sep [x] = x"
| "str_join sep (x # y # ys) = x @ sep @ str_join sep (y # ys)"

definition digit_char :: "nat \<Rightarrow> char" where
  "digit_char d = ''0123456789'' ! d"

fun str_nat :: "nat \<Rightarrow> string" where
  "str_nat n =
     (if n < 10 then [digit_char n] else str_nat (n div 10) @ [digit_char (n mod 10)])"

declare str_nat.simps [simp del]

text \<open>\<^verbatim>\<open>str(i)\<close> for an int.\<close>

definition str_int :: "int \<Rightarrow> string" where
  "str_int i = (if i < 0 then ''-'' @ str_nat (nat (- i)) else str_nat (nat i))"

section \<open>The figure and the image buffer\<close>

text \<open>What the matplotlib calls of \<^verbatim>\<open>generate_price_chart\<close> set on the figure.\<close>

record figure =
  style :: string
  figsize :: "nat \<times> nat"
  line_x :: "real list"
  line_y :: "real list"
  line_color :: string
  title :: string
  ylabel :: string
  x_format :: string
  x_rotation :: nat

type_synonym byte = "8 word"

text \<open>\<^verbatim>\<open>io.BytesIO\<close>: the bytes written and the stream position.\<close>

record bytesio =
  getvalue :: "byte list"
  tell :: nat

definition BytesIO :: bytesio where
  "BytesIO = \<lparr>getvalue = [], tell = 0\<rparr>"

text \<open>Writing at the end of the buffer, as \<^verbatim>\<open>savefig\<close> does on a fresh one.\<close>

definition write_bytes :: "bytesio \<Rightarrow> byte list \<Rightarrow> bytesio" where
  "write_bytes buf bs = \<lparr>getvalue = getvalue buf @ bs, tell = length (getvalue buf @ bs)\<rparr>"

definition seek :: "bytesio \<Rightarrow> nat \<Rightarrow> bytesio" where
  "seek buf n = buf\<lparr>tell := n\<rparr>"

section \<open>The world outside the program\<close>

text \<open>
  The upstream's answer to one GET: no usable response (connection error, timeout or an
  error status), a body that is not JSON, or a decoded JSON body.
\<close>

datatype response =
    RequestFailed
  | NotJson
  | Json json

text \<open>
  What the program takes from outside itself, left open:
  \<^item> \<^verbatim>\<open>http_get\<close>, the upstream API, by URL;
  \<^item> \<^verbatim>\<open>py_repr\<close>, Python's text for a float, a list and a dict;
  \<^item> \<^verbatim>\<open>unicode_lower\<close>, \<^verbatim>\<open>unicode_upper\<close> and \<^verbatim>\<open>unicode_title\<close>, the three str methods on a str
    that has a character outside ASCII;
  \<^item> \<^verbatim>\<open>matplotlib\<close>, the drawing of a figure and its encoding by
    \<^verbatim>\<open>plt.savefig(buf, format='png', transparent=True)\<close>: the bytes written, or an exception;
  \<^item> \<^verbatim>\<open>pandas_matplotlib\<close>, lines 21 to 51 for a value of \<^verbatim>\<open>data['prices']\<close> that the
    definitions below do not cover: the figure drawn and the bytes written, or an
    exception.
\<close>

record world =
  http_get :: "string \<Rightarrow> response"
  py_repr :: "json \<Rightarrow> string"
  unicode_lower :: "string \<Rightarrow> string"
  unicode_upper :: "string \<Rightarrow> string"
  unicode_title :: "string \<Rightarrow> string"
  matplotlib :: "figure \<Rightarrow> exn + byte list"
  pandas_matplotlib :: "string \<Rightarrow> json \<Rightarrow> exn + (figure \<times> byte list)"

text \<open>
  What a function does to the outside: the GETs it issues, the figures it has matplotlib
  draw, and the replies it sends.
\<close>

datatype effect =
    HttpGet string
  | Draw figure
  | ReplyText string "string list list option"
  | ReplyPhoto bytesio string

text \<open>\<^verbatim>\<open>s.lower()\<close>, \<^verbatim>\<open>s.upper()\<close> and \<^verbatim>\<open>s.title()\<close>\<close>

definition str_lower :: "world \<Rightarrow> string \<Rightarrow> string" where
  "str_lower w s = (if ascii_str s then map lower_char s else unicode_lower w s)"

definition str_upper :: "world \<Rightarrow> string \<Rightarrow> string" where
  "str_upper w s = (if ascii_str s then map upper_char s else unicode_upper w s)"

definition str_title :: "world \<Rightarrow> string \<Rightarrow> string" where
  "str_title w s = (if ascii_str s then title_from False s else unicode_title w s)"

subsection \<open>Operators on a decoded document\<close>

text \<open>
  \<^verbatim>\<open>key in v\<close> for a str \<^verbatim>\<open>key\<close>: membership among the keys of a dict, among the elements
  of a list, as a piece of a str; \<^verbatim>\<open>TypeError\<close> on \<^verbatim>\<open>None\<close>, a bool or a number.
\<close>

fun py_in :: "string \<Rightarrow> json \<Rightarrow> exn + bool" where
  "py_in key (JObj items) = Inr (map_of items key \<noteq> None)"
| "py_in key (JArr xs) = Inr (JStr key \<in> set xs)"
| "py_in key (JStr s) = Inr (str_in key s)"
| "py_in key JNull = Inl TypeError"
| "py_in key (JBool b) = Inl TypeError"
| "py_in key (JInt i) = Inl TypeError"
| "py_in key (JFloat x) = Inl TypeError"

text \<open>
  \<^verbatim>\<open>v[key]\<close> for a str \<^verbatim>\<open>key\<close>: the value of a dict or \<^verbatim>\<open>KeyError\<close>; \<^verbatim>\<open>TypeError\<close> on every
  other value (a list and a str take integer indices only, the rest is not subscriptable).
\<close>

fun py_getitem :: "json \<Rightarrow> string \<Rightarrow> exn + json" where
  "py_getitem (JObj items) key =
     (case map_of items key of None \<Rightarrow> Inl KeyError | Some v \<Rightarrow> Inr v)"
| "py_getitem (JArr xs) key = Inl TypeError"
| "py_getitem (JStr s) key = Inl TypeError"
| "py_getitem JNull key = Inl TypeError"
| "py_getitem (JBool b) key = Inl TypeError"
| "py_getitem (JInt i) key = Inl TypeError"
| "py_getitem (JFloat x) key = Inl TypeError"

text \<open>
  \<^verbatim>\<open>for x in v\<close>: the elements of a list, the keys of a dict, the characters of a str;
  \<^verbatim>\<open>TypeError\<close> on a value that is not iterable.
\<close>

fun py_iter :: "json \<Rightarrow> exn + json list" where
  "py_iter (JArr xs) = Inr xs"
| "py_iter (JObj items) = Inr (map (\<lambda>(k, v). JStr k) items)"
| "py_iter (JStr s) = Inr (map (\<lambda>c. JStr [c]) s)"
| "py_iter JNull = Inl TypeError"
| "py_iter (JBool b) = Inl TypeError"
| "py_iter (JInt i) = Inl TypeError"
| "py_iter (JFloat x) = Inl TypeError"

text \<open>\<^verbatim>\<open>v.upper()\<close> and \<^verbatim>\<open>v.title()\<close>: methods of a str only.\<close>

fun py_upper :: "world \<Rightarrow> json \<Rightarrow> exn + string" where
  "py_upper w (JStr s) = Inr (str_upper w s)"
| "py_upper w JNull = Inl AttributeError"
| "py_upper w (JBool b) = Inl AttributeError"
| "py_upper w (JInt i) = Inl AttributeError"
| "py_upper w (JFloat x) = Inl AttributeError"
| "py_upper w (JArr xs) = Inl AttributeError"
| "py_upper w (JObj items) = Inl AttributeError"

fun py_title :: "world \<Rightarrow> json \<Rightarrow> exn + string" where
  "py_title w (JStr s) = Inr (str_title w s)"
| "py_title w JNull = Inl AttributeError"
| "py_title w (JBool b) = Inl AttributeError"
| "py_title w (JInt i) = Inl AttributeError"
| "py_title w (JFloat x) = Inl AttributeError"
| "py_title w (JArr xs) = Inl AttributeError"
| "py_title w (JObj items) = Inl AttributeError"

text \<open>
  \<^verbatim>\<open>series.iloc[i]\<close>: a negative position counts from the end, a position outside the
  series raises \<^verbatim>\<open>IndexError\<close>.
\<close>

definition iloc :: "'a list \<Rightarrow> int \<Rightarrow> exn + 'a" where
  "iloc xs i =
     (let k = (if i < 0 then int (length xs) + i else i)
      in if k < 0 \<or> int (length xs) \<le> k then Inl IndexError else Inr (xs ! nat k))"

text \<open>\<^verbatim>\<open>str(v)\<close>, as an f-string formats a value.\<close>

fun py_str :: "world \<Rightarrow> json \<Rightarrow> string" where
  "py_str w (JStr s) = s"
| "py_str w (JInt i) = str_int i"
| "py_str w JNull = ''None''"
| "py_str w (JBool b) = (if b then ''True'' else ''False'')"
| "py_str w (JFloat x) = py_repr w (JFloat x)"
| "py_str w (JArr xs) = py_repr w (JArr xs)"
| "py_str w (JObj items) = py_repr w (JObj items)"

text \<open>
  \<^verbatim>\<open>response = requests.get(url); response.raise_for_status(); data = response.json()\<close>
\<close>

definition fetch_json :: "world \<Rightarrow> string \<Rightarrow> exn + json" where
  "fetch_json w url =
     (case http_get w url of
        RequestFailed \<Rightarrow> Inl RequestException
      | NotJson \<Rightarrow> Inl JSONDecodeError
      | Json data \<Rightarrow> Inr data)"

section \<open>parser.py\<close>

subsection \<open>The pandas frame\<close>

text \<open>
  The conversion of an int to float64, rounding to the nearest value with a mantissa of 53
  bits and, between two such values, to the one with the even mantissa.
  \<^verbatim>\<open>mantissa_shift a\<close> is the number of low bits that do not fit.
\<close>

fun mantissa_shift :: "nat \<Rightarrow> nat" where
  "mantissa_shift a =
     (if a < 9007199254740992 then 0 else Suc (mantissa_shift (a div 2)))"

declare mantissa_shift.simps [simp del]

definition float64_of_int :: "int \<Rightarrow> real" where
  "float64_of_int i =
     (let a = nat \<bar>i\<bar>;
          e = mantissa_shift a;
          q = a div 2 ^ e;
          r = a mod 2 ^ e;
          m = (if 2 ^ e < 2 * r \<or> (2 * r = 2 ^ e \<and> odd q) then q + 1 else q)
      in if i < 0 then - real (m * 2 ^ e) else real (m * 2 ^ e))"

text \<open>
  A number of a row: a float, or an int that int64 holds. A row of the series is a list
  of two numbers, \<^verbatim>\<open>[timestamp, price]\<close>.
\<close>

fun is_number :: "json \<Rightarrow> bool" where
  "is_number (JInt i) = (- 9223372036854775808 \<le> i \<and> i < 9223372036854775808)"
| "is_number (JFloat x) = True"
| "is_number JNull = False"
| "is_number (JBool b) = False"
| "is_number (JStr s) = False"
| "is_number (JArr xs) = False"
| "is_number (JObj items) = False"

fun is_float :: "json \<Rightarrow> bool" where
  "is_float (JFloat x) = True"
| "is_float JNull = False"
| "is_float (JBool b) = False"
| "is_float (JInt i) = False"
| "is_float (JStr s) = False"
| "is_float (JArr xs) = False"
| "is_float (JObj items) = False"

definition number_pair :: "json \<Rightarrow> (json \<times> json) option" where
  "number_pair row =
     (case row of
        JArr [t, p] \<Rightarrow> if is_number t \<and> is_number p then Some (t, p) else None
      | _ \<Rightarrow> None)"

fun number_pairs :: "json list \<Rightarrow> (json \<times> json) list option" where
  "number_pairs [] = Some []"
| "number_pairs (row # rows) =
     (case number_pair row of
        None \<Rightarrow> None
      | Some cell \<Rightarrow>
          (case number_pairs rows of None \<Rightarrow> None | Some cells \<Rightarrow> Some (cell # cells)))"

text \<open>
  The value a column holds for a number: the column is float64 as soon as one of its
  numbers is a float, and its ints are then converted; a column of ints is int64 and holds
  them as they are. A column has numbers only, so the last equation is never used.
\<close>

fun held :: "bool \<Rightarrow> json \<Rightarrow> real" where
  "held float_column (JInt i) = (if float_column then float64_of_int i else of_int i)"
| "held float_column (JFloat x) = x"
| "held float_column v = 0"

definition column :: "json list \<Rightarrow> real list" where
  "column numbers = map (held (list_ex is_float numbers)) numbers"

text \<open>
  \<^verbatim>\<open>pd.DataFrame(data['prices'], columns=['timestamp', 'price'])\<close> on a list of rows of two
  numbers, the empty list among them: the two columns. \<^verbatim>\<open>None\<close> stands for every other
  value, which is left to \<^verbatim>\<open>pandas_matplotlib\<close>.
\<close>

definition DataFrame :: "json \<Rightarrow> (real list \<times> real list) option" where
  "DataFrame prices =
     (case prices of
        JArr rows \<Rightarrow>
          (case number_pairs rows of
             None \<Rightarrow> None
           | Some cells \<Rightarrow> Some (column (map fst cells), column (map snd cells)))
      | _ \<Rightarrow> None)"

text \<open>
  \<^verbatim>\<open>pd.to_datetime(df['timestamp'], unit='ms')\<close>. pandas holds an instant in an int64. Up
  to 9e12 milliseconds from the epoch an instant fits even as nanoseconds, and every
  timestamp converts; from 1e19 milliseconds on the number is beyond int64 itself, and the
  conversion raises \<^verbatim>\<open>OutOfBoundsDatetime\<close>. \<^verbatim>\<open>None\<close> stands for a column that reaches in
  between, which is left to \<^verbatim>\<open>pandas_matplotlib\<close>.
\<close>

definition to_datetime :: "real list \<Rightarrow> (exn + real list) option" where
  "to_datetime timestamps =
     (if list_ex (\<lambda>t. 10000000000000000000 \<le> \<bar>t\<bar>) timestamps then Some (Inl OutOfBoundsDatetime)
      else if list_all (\<lambda>t. \<bar>t\<bar> \<le> 9000000000000) timestamps then Some (Inr timestamps)
      else None)"

subsection \<open>generate\_price\_chart\<close>

text \<open>
  Lines 29 to 46: what \<^verbatim>\<open>ax.plot\<close> and the formatting calls ask matplotlib for.
\<close>

definition plot :: "world \<Rightarrow> string \<Rightarrow> real list \<Rightarrow> real list \<Rightarrow> string \<Rightarrow> figure" where
  "plot w crypto_id timestamps prices color =
     \<lparr>style = ''dark_background'',
      figsize = (10, 6),
      line_x = timestamps,
      line_y = prices,
      line_color = color,
      title = str_title w crypto_id @ '' Price (Last 24h)'',
      ylabel = ''Price (USD)'',
      x_format = ''%H:%M'',
      x_rotation = 45\<rparr>"

definition chart_url :: "string \<Rightarrow> string" where
  "chart_url crypto_id =
     ''https://api.coingecko.com/api/v3/coins/'' @ crypto_id
       @ ''/market_chart?vs_currency=usd&days=1''"

text \<open>Lines 21 to 53 on a value that \<^verbatim>\<open>DataFrame\<close> or \<^verbatim>\<open>to_datetime\<close> does not cover.\<close>

definition elsewhere :: "world \<Rightarrow> string \<Rightarrow> json \<Rightarrow> effect list \<times> (exn + bytesio option)" where
  "elsewhere w crypto_id prices =
     (case pandas_matplotlib w crypto_id prices of
        Inl e \<Rightarrow> ([], Inl e)
      | Inr (fig, png) \<Rightarrow> ([Draw fig], Inr (Some (seek (write_bytes BytesIO png) 0))))"

text \<open>
  \<^verbatim>\<open>body\<close> is the \<^verbatim>\<open>try\<close> block: what it has done, and what it returns or raises. Both
  \<^verbatim>\<open>except\<close> clauses return \<^verbatim>\<open>None\<close>, and the second one takes every exception.
\<close>

definition generate_price_chart :: "world \<Rightarrow> string \<Rightarrow> effect list \<times> bytesio option" where
  "generate_price_chart w crypto_id =
     (let url = chart_url crypto_id;
          body =
            (case fetch_json w url of
               Inl e \<Rightarrow> ([], Inl e)
             | Inr data \<Rightarrow>
                 (case py_in ''prices'' data of
                    Inl e \<Rightarrow> ([], Inl e)
                  | Inr present \<Rightarrow>
                      if \<not> present then ([], Inr None)
                      else
                        (case py_getitem data ''prices'' of
                           Inl e \<Rightarrow> ([], Inl e)
                         | Inr prices \<Rightarrow>
                             (case DataFrame prices of
                                None \<Rightarrow> elsewhere w crypto_id prices
                              | Some (timestamp_column, price_column) \<Rightarrow>
                                  (case to_datetime timestamp_column of
                                     None \<Rightarrow> elsewhere w crypto_id prices
                                   | Some (Inl e) \<Rightarrow> ([], Inl e)
                                   | Some (Inr timestamps) \<Rightarrow>
                                       (case iloc price_column 0 of
                                          Inl e \<Rightarrow> ([], Inl e)
                                        | Inr start_price \<Rightarrow>
                                            (case iloc price_column (- 1) of
                                               Inl e \<Rightarrow> ([], Inl e)
                                             | Inr end_price \<Rightarrow>
                                                 (let line_color =
                                                        (if end_price \<ge> start_price
                                                         then ''#26a69a'' else ''#ef5350'');
                                                      fig = plot w crypto_id timestamps
                                                              price_column line_color
                                                  in case matplotlib w fig of
                                                       Inl e \<Rightarrow> ([Draw fig], Inl e)
                                                     | Inr png \<Rightarrow>
                                                         ([Draw fig],
                                                          Inr (Some (seek (write_bytes BytesIO png)
                                                                       0)))))))))))
      in (HttpGet url # fst body,
          case snd body of
            Inl e \<Rightarrow> None
          | Inr r \<Rightarrow> r))"

subsection \<open>The prices\<close>

definition price_url :: "string \<Rightarrow> string" where
  "price_url crypto_name =
     ''https://api.coingecko.com/api/v3/simple/price?ids='' @ crypto_name
       @ ''&vs_currencies=usd''"

definition PRICE_NOT_AVAILABLE :: string where
  "PRICE_NOT_AVAILABLE = ''Price data not available at this time''"

definition SERVICE_UNAVAILABLE :: string where
  "SERVICE_UNAVAILABLE = ''Service temporarily unavailable - please try again later''"

text \<open>
  The only \<^verbatim>\<open>except\<close> clause takes a \<^verbatim>\<open>RequestException\<close>; any other exception leaves the
  function.
\<close>

definition get_crypto_price :: "world \<Rightarrow> string \<Rightarrow> effect list \<times> (exn + string)" where
  "get_crypto_price w crypto_name =
     (let url = price_url crypto_name;
          body =
            (case fetch_json w url of
               Inl e \<Rightarrow> Inl e
             | Inr data \<Rightarrow>
                 (case py_in crypto_name data of
                    Inl e \<Rightarrow> Inl e
                  | Inr named \<Rightarrow>
                      if \<not> named then Inr PRICE_NOT_AVAILABLE
                      else
                        (case py_getitem data crypto_name of
                           Inl e \<Rightarrow> Inl e
                         | Inr entry \<Rightarrow>
                             (case py_in ''usd'' entry of
                                Inl e \<Rightarrow> Inl e
                              | Inr priced \<Rightarrow>
                                  if \<not> priced then Inr PRICE_NOT_AVAILABLE
                                  else
                                    (case py_getitem entry ''usd'' of
                                       Inl e \<Rightarrow> Inl e
                                     | Inr usd \<Rightarrow> Inr (''$'' @ py_str w usd))))))
      in ([HttpGet url],
          case body of
            Inl e \<Rightarrow> if is_RequestException e then Inr SERVICE_UNAVAILABLE else Inl e
          | Inr s \<Rightarrow> Inr s))"

definition markets_url :: string where
  "markets_url =
     ''https://api.coingecko.com/api/v3/coins/markets?vs_currency=usd&order=market_cap_desc&per_page=5&page=1''"

definition TOP_UNAVAILABLE :: string where
  "TOP_UNAVAILABLE = ''Couldn't retrieve top cryptocurrencies - please try again later''"

text \<open>
  The f-string of line 90, its fields read from left to right:
  \<^verbatim>\<open>f"{crypto['name']} ({crypto['symbol'].upper()}): ${crypto['current_price']}"\<close>
\<close>

definition price_line :: "world \<Rightarrow> json \<Rightarrow> exn + string" where
  "price_line w crypto =
     (case py_getitem crypto ''name'' of
        Inl e \<Rightarrow> Inl e
      | Inr name \<Rightarrow>
          (case py_getitem crypto ''symbol'' of
             Inl e \<Rightarrow> Inl e
           | Inr symbol \<Rightarrow>
               (case py_upper w symbol of
                  Inl e \<Rightarrow> Inl e
                | Inr upper_symbol \<Rightarrow>
                    (case py_getitem crypto ''current_price'' of
                       Inl e \<Rightarrow> Inl e
                     | Inr current_price \<Rightarrow>
                         Inr (py_str w name @ '' ('' @ upper_symbol @ ''): $''
                                @ py_str w current_price)))))"

text \<open>The loop of lines 89 and 90, appending to \<^verbatim>\<open>prices\<close>.\<close>

fun append_prices :: "world \<Rightarrow> string list \<Rightarrow> json list \<Rightarrow> exn + string list" where
  "append_prices w prices [] = Inr prices"
| "append_prices w prices (crypto # rest) =
     (case price_line w crypto of
        Inl e \<Rightarrow> Inl e
      | Inr line \<Rightarrow> append_prices w (prices @ [line]) rest)"

definition get_top_5_crypto_prices :: "world \<Rightarrow> effect list \<times> (exn + string)" where
  "get_top_5_crypto_prices w =
     (let url = markets_url;
          body =
            (case fetch_json w url of
               Inl e \<Rightarrow> Inl e
             | Inr data \<Rightarrow>
                 (case py_iter data of
                    Inl e \<Rightarrow> Inl e
                  | Inr cryptos \<Rightarrow>
                      (case append_prices w [] cryptos of
                         Inl e \<Rightarrow> Inl e
                       | Inr prices \<Rightarrow> Inr (str_join ''\<newline>'' prices))))
      in ([HttpGet url],
          case body of
            Inl e \<Rightarrow> if is_RequestException e then Inr TOP_UNAVAILABLE else Inl e
          | Inr s \<Rightarrow> Inr s))"

text \<open>The comprehension \<^verbatim>\<open>[crypto['id'] for crypto in data]\<close>.\<close>

fun crypto_ids :: "json list \<Rightarrow> exn + json list" where
  "crypto_ids [] = Inr []"
| "crypto_ids (crypto # rest) =
     (case py_getitem crypto ''id'' of
        Inl e \<Rightarrow> Inl e
      | Inr i \<Rightarrow> (case crypto_ids rest of Inl e \<Rightarrow> Inl e | Inr is \<Rightarrow> Inr (i # is)))"

definition get_top_5_crypto_list :: "world \<Rightarrow> effect list \<times> (exn + json list)" where
  "get_top_5_crypto_list w =
     (let url = markets_url;
          body =
            (case fetch_json w url of
               Inl e \<Rightarrow> Inl e
             | Inr data \<Rightarrow>
                 (case py_iter data of
                    Inl e \<Rightarrow> Inl e
                  | Inr cryptos \<Rightarrow> crypto_ids cryptos))
      in ([HttpGet url],
          case body of
            Inl e \<Rightarrow> if is_RequestException e then Inr [] else Inl e
          | Inr ids \<Rightarrow> Inr ids))"

section \<open>bot.py\<close>

text \<open>The characters outside ASCII that the replies use, in UTF-8.\<close>

definition CHART_INCREASING :: string where
  "CHART_INCREASING = [CHR 0xF0, CHR 0x9F, CHR 0x93, CHR 0x88]"

definition MAGNIFIER :: string where
  "MAGNIFIER = [CHR 0xF0, CHR 0x9F, CHR 0x94, CHR 0x8D]"

definition CROSS_MARK :: string where
  "CROSS_MARK = [CHR 0xE2, CHR 0x9D, CHR 0x8C]"

definition MONEY_BAG :: string where
  "MONEY_BAG = [CHR 0xF0, CHR 0x9F, CHR 0x92, CHR 0xB0]"

definition PALETTE :: string where
  "PALETTE = [CHR 0xF0, CHR 0x9F, CHR 0x8E, CHR 0xA8]"

definition ROCKET :: string where
  "ROCKET = [CHR 0xF0, CHR 0x9F, CHR 0x9A, CHR 0x80]"

definition LIGHT_BULB :: string where
  "LIGHT_BULB = [CHR 0xF0, CHR 0x9F, CHR 0x92, CHR 0xA1]"

definition BULLET :: string where
  "BULLET = [CHR 0xE2, CHR 0x80, CHR 0xA2]"

text \<open>
  A handler works on \<^verbatim>\<open>context.user_data\<close>, the dict of the user who sent the update. It
  leaves the dict as \<^verbatim>\<open>user_data\<close>, has sent and fetched \<^verbatim>\<open>effects\<close>, and has \<^verbatim>\<open>raised\<close> an
  exception or none. Replies are taken to be delivered; logging is left out.
\<close>

record outcome =
  user_data :: "string \<rightharpoonup> string"
  effects :: "effect list"
  raised :: "exn option"

definition START_TEXT :: string where
  "START_TEXT =
     ROCKET @ '' *Crypto Tracker Bot* '' @ ROCKET @ ''\<newline>\<newline>''
     @ CHART_INCREASING @ '' Get real-time cryptocurrency prices and charts including:\<newline>''
     @ ''  '' @ BULLET @ '' Bitcoin, Ethereum, Binance Coin\<newline>''
     @ ''  '' @ BULLET @ '' Toncoin and other top cryptos\<newline>\<newline>''
     @ LIGHT_BULB @ '' *Available commands:*\<newline>''
     @ ''  /price - Check cryptocurrency price\<newline>''
     @ ''  /chart - Get a 24h price chart\<newline>''
     @ ''  /top5 - View top 5 by market cap\<newline>\<newline>''
     @ ''Tap /price to check Toncoin price now!''"

definition start :: "world \<Rightarrow> (string \<rightharpoonup> string) \<Rightarrow> outcome" where
  "start w ud = \<lparr>user_data = ud, effects = [ReplyText START_TEXT None], raised = None\<rparr>"

definition FALLBACK_LIST :: "string list" where
  "FALLBACK_LIST = [''bitcoin'', ''ethereum'', ''binancecoin'', ''ripple'', ''cardano'']"

definition SELECT_TEXT :: string where
  "SELECT_TEXT = CHART_INCREASING @ '' Please select a cryptocurrency from the list below:''"

text \<open>The comprehension \<^verbatim>\<open>[[crypto.title()] for crypto in crypto_list]\<close>.\<close>

fun keyboard_rows :: "world \<Rightarrow> json list \<Rightarrow> exn + string list list" where
  "keyboard_rows w [] = Inr []"
| "keyboard_rows w (crypto # rest) =
     (case py_title w crypto of
        Inl e \<Rightarrow> Inl e
      | Inr label \<Rightarrow>
          (case keyboard_rows w rest of Inl e \<Rightarrow> Inl e | Inr rows \<Rightarrow> Inr ([label] # rows)))"

text \<open>
  The \<^verbatim>\<open>try\<close> around \<^verbatim>\<open>get_top_5_crypto_list()\<close> takes every exception; the comprehension
  and the reply come after it.
\<close>

definition ask_for_crypto :: "world \<Rightarrow> (string \<rightharpoonup> string) \<Rightarrow> string \<Rightarrow> outcome" where
  "ask_for_crypto w ud intent =
     (let ud1 = ud(''intent'' \<mapsto> intent);
          (gets, result) = get_top_5_crypto_list w;
          crypto_list =
            (case result of
               Inl e \<Rightarrow> map JStr FALLBACK_LIST
             | Inr ids \<Rightarrow> ids);
          crypto_list = crypto_list @ [JStr ''Toncoin'']
      in case keyboard_rows w crypto_list of
           Inl e \<Rightarrow> \<lparr>user_data = ud1, effects = gets, raised = Some e\<rparr>
         | Inr rows \<Rightarrow>
             \<lparr>user_data = ud1,
              effects = gets @ [ReplyText SELECT_TEXT (Some rows)],
              raised = None\<rparr>)"

definition price_command :: "world \<Rightarrow> (string \<rightharpoonup> string) \<Rightarrow> outcome" where
  "price_command w ud = ask_for_crypto w ud ''get_price''"

definition chart_command :: "world \<Rightarrow> (string \<rightharpoonup> string) \<Rightarrow> outcome" where
  "chart_command w ud = ask_for_crypto w ud ''get_chart''"

definition CHECKING_TEXT :: "string \<Rightarrow> string" where
  "CHECKING_TEXT crypto_name_raw =
     MAGNIFIER @ '' Checking current '' @ crypto_name_raw @ '' price...''"

definition PRICE_SORRY_TEXT :: "string \<Rightarrow> string" where
  "PRICE_SORRY_TEXT crypto_name_raw =
     CROSS_MARK @ '' Sorry, I couldn't retrieve the '' @ crypto_name_raw
       @ '' price at the moment. Please try again later.''"

definition PRICE_TEXT :: "string \<Rightarrow> string \<Rightarrow> string" where
  "PRICE_TEXT crypto_name_raw price_info =
     MONEY_BAG @ '' Current '' @ crypto_name_raw @ '' price: '' @ price_info"

definition GENERATING_TEXT :: "string \<Rightarrow> string" where
  "GENERATING_TEXT crypto_name_raw =
     PALETTE @ '' Generating 24h chart for '' @ crypto_name_raw @ ''...''"

definition CHART_CAPTION :: "string \<Rightarrow> string" where
  "CHART_CAPTION crypto_name_raw =
     CHART_INCREASING @ '' 24-hour price chart for '' @ crypto_name_raw"

definition CHART_SORRY_TEXT :: "string \<Rightarrow> string" where
  "CHART_SORRY_TEXT crypto_name_raw =
     CROSS_MARK @ '' Sorry, I couldn't generate the chart for '' @ crypto_name_raw
       @ '' at the moment. Please try again later.''"

text \<open>
  \<^verbatim>\<open>text\<close> is \<^verbatim>\<open>update.message.text\<close>. An exception of \<^verbatim>\<open>get_crypto_price\<close> leaves the handler
  at line 85, before the intent is deleted.
\<close>

definition crypto_handler :: "world \<Rightarrow> (string \<rightharpoonup> string) \<Rightarrow> string \<Rightarrow> outcome" where
  "crypto_handler w ud text =
     (case ud ''intent'' of
        None \<Rightarrow> \<lparr>user_data = ud, effects = [], raised = None\<rparr>
      | Some intent \<Rightarrow>
          if intent = [] then \<lparr>user_data = ud, effects = [], raised = None\<rparr>
          else
            (let crypto_name_raw = text;
                 crypto_name = str_lower w crypto_name_raw;
                 crypto_id =
                   (if crypto_name = ''toncoin'' then ''the-open-network'' else crypto_name)
             in if intent = ''get_price'' then
                  (let (gets, result) = get_crypto_price w crypto_id
                   in case result of
                        Inl e \<Rightarrow>
                          \<lparr>user_data = ud,
                           effects = ReplyText (CHECKING_TEXT crypto_name_raw) None # gets,
                           raised = Some e\<rparr>
                      | Inr price_info \<Rightarrow>
                          \<lparr>user_data = ud(''intent'' := None),
                           effects =
                             ReplyText (CHECKING_TEXT crypto_name_raw) None # gets
                             @ [if str_in ''error'' (str_lower w price_info)
                                   \<or> str_in ''could not find'' (str_lower w price_info)
                                   \<or> str_in ''not available'' (str_lower w price_info)
                                then ReplyText (PRICE_SORRY_TEXT crypto_name_raw) None
                                else ReplyText (PRICE_TEXT crypto_name_raw price_info) None],
                           raised = None\<rparr>)
                else if intent = ''get_chart'' then
                  (let (gets, chart_image) = generate_price_chart w crypto_id
                   in \<lparr>user_data = ud(''intent'' := None),
                       effects =
                         ReplyText (GENERATING_TEXT crypto_name_raw) None # gets
                         @ [case chart_image of
                              Some buf \<Rightarrow> ReplyPhoto buf (CHART_CAPTION crypto_name_raw)
                            | None \<Rightarrow> ReplyText (CHART_SORRY_TEXT crypto_name_raw) None],
                       raised = None\<rparr>)
                else \<lparr>user_data = ud(''intent'' := None), effects = [], raised = None\<rparr>))"

definition FETCHING_TEXT :: string where
  "FETCHING_TEXT = ''Fetching the prices of the top 5 cryptocurrencies...''"

definition top5 :: "world \<Rightarrow> (string \<rightharpoonup> string) \<Rightarrow> outcome" where
  "top5 w ud =
     (let (gets, result) = get_top_5_crypto_prices w
      in case result of
           Inl e \<Rightarrow>
             \<lparr>user_data = ud, effects = ReplyText FETCHING_TEXT None # gets, raised = Some e\<rparr>
         | Inr prices_info \<Rightarrow>
             \<lparr>user_data = ud,
              effects =
                ReplyText FETCHING_TEXT None # gets
                @ [ReplyText (''Top 5 cryptocurrencies:\<newline>'' @ prices_info) None],
              raised = None\<rparr>)"

text \<open>
  The handlers that \<^verbatim>\<open>main\<close> registers: four commands, and \<^verbatim>\<open>crypto_handler\<close> for a text
  message that is not a command. Another command meets no handler.
\<close>

datatype update =
    Command string
  | Text string

definition handle_update :: "world \<Rightarrow> (string \<rightharpoonup> string) \<Rightarrow> update \<Rightarrow> outcome" where
  "handle_update w ud u =
     (case u of
        Command c \<Rightarrow>
          if c = ''start'' then start w ud
          else if c = ''price'' then price_command w ud
          else if c = ''chart'' then chart_command w ud
          else if c = ''top5'' then top5 w ud
          else \<lparr>user_data = ud, effects = [], raised = None\<rparr>
      | Text t \<Rightarrow> crypto_handler w ud t)"

text \<open>The URLs a handler has fetched, in order.\<close>

fun http_calls :: "effect list \<Rightarrow> string list" where
  "http_calls [] = []"
| "http_calls (HttpGet url # es) = url # http_calls es"
| "http_calls (Draw fig # es) = http_calls es"
| "http_calls (ReplyText t k # es) = http_calls es"
| "http_calls (ReplyPhoto b c # es) = http_calls es"

section \<open>The specification's notions\<close>

text \<open>
  The response maps the identifier key to a nested USD value: the body is an object, its
  entry for the identifier is an object, and that object has the field \<^verbatim>\<open>usd\<close>.
\<close>

definition nested_usd :: "json \<Rightarrow> string \<Rightarrow> json option" where
  "nested_usd data ident =
     (case data of
        JObj items \<Rightarrow>
          (case map_of items ident of
             Some (JObj entry) \<Rightarrow> map_of entry ''usd''
           | _ \<Rightarrow> None)
      | _ \<Rightarrow> None)"

text \<open>
  A market snapshot: an entry with a name, a symbol that is a string, and a current price.
  Its line in the listing is \<^verbatim>\<open>{name} ({SYMBOL}): ${price}\<close>.
\<close>

definition snapshot :: "json \<Rightarrow> (json \<times> string \<times> json) option" where
  "snapshot crypto =
     (case crypto of
        JObj items \<Rightarrow>
          (case (map_of items ''name'', map_of items ''symbol'', map_of items ''current_price'') of
             (Some name, Some (JStr symbol), Some price) \<Rightarrow> Some (name, symbol, price)
           | _ \<Rightarrow> None)
      | _ \<Rightarrow> None)"

definition snapshot_line :: "world \<Rightarrow> json \<Rightarrow> string" where
  "snapshot_line w crypto =
     (case snapshot crypto of
        Some (name, symbol, price) \<Rightarrow>
          py_str w name @ '' ('' @ str_upper w symbol @ ''): $'' @ py_str w price
      | None \<Rightarrow> [])"

text \<open>The lines of a text block, cut at every newline.\<close>

fun text_lines :: "string \<Rightarrow> string list" where
  "text_lines [] = [[]]"
| "text_lines (c # cs) =
     (if c = CHR ''\<newline>'' then [] # text_lines cs
      else (case text_lines cs of [] \<Rightarrow> [[c]] | l # ls \<Rightarrow> (c # l) # ls))"

text \<open>
  A price series: points \<^verbatim>\<open>(timestamp, price)\<close> of two numbers, sent as rows
  \<^verbatim>\<open>[timestamp, price]\<close>. \<^verbatim>\<open>number_value\<close> is the number itself.
\<close>

definition series_rows :: "(json \<times> json) list \<Rightarrow> json list" where
  "series_rows points = map (\<lambda>(t, p). JArr [t, p]) points"

definition is_series :: "(json \<times> json) list \<Rightarrow> bool" where
  "is_series points = list_all (\<lambda>(t, p). is_number t \<and> is_number p) points"

fun number_value :: "json \<Rightarrow> real" where
  "number_value (JInt i) = of_int i"
| "number_value (JFloat x) = x"
| "number_value v = 0"

text \<open>The timestamps that pandas can hold, and those that it cannot.\<close>

definition timestamps_in_range :: "(json \<times> json) list \<Rightarrow> bool" where
  "timestamps_in_range points =
     list_all (\<lambda>(t, p). \<bar>number_value t\<bar> \<le> 9000000000000) points"

text \<open>
  The prices that a float64 column holds as they are: floats, and ints of a magnitude up
  to 9007199254740992, which is 2 to the power 53.
\<close>

fun fits_float64 :: "json \<Rightarrow> bool" where
  "fits_float64 (JInt i) = (\<bar>i\<bar> \<le> 9007199254740992)"
| "fits_float64 v = True"

definition prices_fit :: "(json \<times> json) list \<Rightarrow> bool" where
  "prices_fit points = list_all (\<lambda>(t, p). fits_float64 p) points"

text \<open>
  The trend colour of a list of prices: upward when the last price is at least the first
  one, downward otherwise.
\<close>

definition UPWARD :: string where
  "UPWARD = ''#26a69a''"

definition DOWNWARD :: string where
  "DOWNWARD = ''#ef5350''"

definition trend_color :: "real list \<Rightarrow> string" where
  "trend_color prices = (if last prices \<ge> hd prices then UPWARD else DOWNWARD)"

text \<open>A PNG stream starts with the eight bytes of the signature.\<close>

definition PNG_SIGNATURE :: "byte list" where
  "PNG_SIGNATURE = [0x89, 0x50, 0x4E, 0x47, 0x0D, 0x0A, 0x1A, 0x0A]"

definition is_png :: "byte list \<Rightarrow> bool" where
  "is_png bs = (take 8 bs = PNG_SIGNATURE)"

text \<open>
  The label Toncoin in any mix of upper and lower case, letter by letter; and the
  identifier of a label, where a label is Toncoin without regard to case when the two have
  the same lower-case form.
\<close>

definition toncoin_label :: "string \<Rightarrow> bool" where
  "toncoin_label label = list_all2 (\<lambda>c l. c = l \<or> c = upper_char l) label ''toncoin''"

definition label_identifier :: "world \<Rightarrow> string \<Rightarrow> string" where
  "label_identifier w label =
     (if str_lower w label = str_lower w ''Toncoin'' then ''the-open-network''
      else str_lower w label)"

subsection \<open>Sample worlds\<close>

text \<open>
  A world with the given upstream, for running the functions on a concrete input. Its
  matplotlib writes the bare signature for every figure.
\<close>

definition test_world :: "(string \<Rightarrow> response) \<Rightarrow> world" where
  "test_world upstream =
     \<lparr>http_get = upstream,
      py_repr = (\<lambda>v. []),
      unicode_lower = (\<lambda>s. s),
      unicode_upper = (\<lambda>s. s),
      unicode_title = (\<lambda>s. s),
      matplotlib = (\<lambda>fig. Inr PNG_SIGNATURE),
      pandas_matplotlib = (\<lambda>crypto_id prices. Inl ValueError)\<rparr>"

definition BITCOIN_65000 :: json where
  "BITCOIN_65000 = JObj [(''bitcoin'', JObj [(''usd'', JInt 65000)])]"

definition SIX_MARKETS :: json where
  "SIX_MARKETS = JArr
     [JObj [(''id'', JStr ''bitcoin''), (''symbol'', JStr ''btc''),
            (''name'', JStr ''Bitcoin''), (''current_price'', JInt 6)],
      JObj [(''id'', JStr ''ethereum''), (''symbol'', JStr ''eth''),
            (''name'', JStr ''Ethereum''), (''current_price'', JInt 5)],
      JObj [(''id'', JStr ''tether''), (''symbol'', JStr ''usdt''),
            (''name'', JStr ''Tether''), (''current_price'', JInt 4)],
      JObj [(''id'', JStr ''ripple''), (''symbol'', JStr ''xrp''),
            (''name'', JStr ''XRP''), (''current_price'', JInt 3)],
      JObj [(''id'', JStr ''solana''), (''symbol'', JStr ''sol''),
            (''name'', JStr ''Solana''), (''current_price'', JInt 2)],
      JObj [(''id'', JStr ''cardano''), (''symbol'', JStr ''ada''),
            (''name'', JStr ''Cardano''), (''current_price'', JInt 1)]]"

definition SIX_LINES :: string where
  "SIX_LINES =
     ''Bitcoin (BTC): $6\<newline>Ethereum (ETH): $5\<newline>Tether (USDT): $4\<newline>XRP (XRP): $3\<newline>Solana (SOL): $2\<newline>Cardano (ADA): $1''"

definition TWO_MARKETS :: "json list" where
  "TWO_MARKETS =
     [JObj [(''id'', JStr ''bitcoin''), (''symbol'', JStr ''btc''),
            (''name'', JStr ''Bitcoin''), (''current_price'', JInt 65000)],
      JObj [(''id'', JStr ''ethereum''), (''symbol'', JStr ''eth''),
            (''name'', JStr ''Ethereum''), (''current_price'', JInt 3000)]]"

definition WRONG_SHAPE :: json where
  "WRONG_SHAPE = JObj [(''bitcoin'', JInt 65000)]"

definition NULL_ENTRY :: json where
  "NULL_ENTRY = JObj [(''bitcoin'', JNull)]"

definition ERROR_OBJECT :: json where
  "ERROR_OBJECT = JObj [(''error'', JStr ''busy'')]"

definition RISING :: "(json \<times> json) list" where
  "RISING = [(JInt 0, JFloat 100), (JInt 60000, JFloat 101.5)]"

definition FALLING :: "(json \<times> json) list" where
  "FALLING = [(JInt 0, JInt 100), (JInt 60000, JInt 99)]"

definition FLAT :: "(json \<times> json) list" where
  "FLAT = [(JInt 0, JFloat 100)]"

text \<open>
  Two ints that differ by one and that float64 cannot tell apart, the greater one first
  and as an int, the smaller one last and as a float.
\<close>

definition ROUNDED :: "(json \<times> json) list" where
  "ROUNDED =
     [(JInt 0, JInt 9007199254740993), (JInt 60000, JFloat 9007199254740992)]"

text \<open>Series with a timestamp of 1e30 milliseconds.\<close>

definition FAR_AWAY :: "(json \<times> json) list" where
  "FAR_AWAY = [(JFloat 1000000000000000000000000000000, JInt 100)]"

definition TOO_LATE :: "(json \<times> json) list" where
  "TOO_LATE = [(JInt 0, JInt 100), (JFloat 1000000000000000000000000000000, JInt 101)]"

definition chart_world :: "(json \<times> json) list \<Rightarrow> world" where
  "chart_world points =
     test_world (\<lambda>url. Json (JObj [(''prices'', JArr (series_rows points))]))"

text \<open>The same with a matplotlib that raises.\<close>

definition no_renderer :: "world \<Rightarrow> world" where
  "no_renderer w = w\<lparr>matplotlib := (\<lambda>fig. Inl RenderError)\<rparr>"

text \<open>
  The same with an interpreter that lowers the label \<^verbatim>\<open>ETHER\<close> with an acute accent on
  its first letter, in UTF-8 the bytes C3 89 before \<^verbatim>\<open>THER\<close>, to C3 A9 before \<^verbatim>\<open>ther\<close>.
\<close>

definition UPPER_ETHER :: string where
  "UPPER_ETHER = [CHR 0xC3, CHR 0x89] @ ''THER''"

definition LOWER_ETHER :: string where
  "LOWER_ETHER = [CHR 0xC3, CHR 0xA9] @ ''ther''"

definition accented_world :: "(string \<Rightarrow> response) \<Rightarrow> world" where
  "accented_world upstream =
     (test_world upstream)
       \<lparr>unicode_lower := (\<lambda>s. if s = UPPER_ETHER then LOWER_ETHER else s)\<rparr>"


section \<open>Evaluation on concrete inputs\<close>

lemmas string_eval =
  str_lower_def str_upper_def str_title_def ascii_str_def lower_char_def upper_char_def
  is_cased_def str_int_def str_nat.simps digit_char_def

lemmas world_eval = test_world_def chart_world_def fetch_json_def Let_def

section \<open>get\_crypto\_price\<close>

lemma nested_usd_SomeD:
  "nested_usd data ident = Some usd \<Longrightarrow>
   \<exists>items entry. data = JObj items \<and> map_of items ident = Some (JObj entry)
     \<and> map_of entry ''usd'' = Some usd"
  by (auto simp: nested_usd_def split: json.splits option.splits)

lemma price_of_nested_usd:
  assumes "http_get w (price_url ident) = Json data" and "nested_usd data ident = Some usd"
  shows "snd (get_crypto_price w ident) = Inr (''$'' @ py_str w usd)"
proof -
  obtain items entry where "data = JObj items" "map_of items ident = Some (JObj entry)"
    "map_of entry ''usd'' = Some usd"
    using nested_usd_SomeD [OF assms(2)] by blast
  with assms(1) show ?thesis
    by (simp add: get_crypto_price_def fetch_json_def Let_def)
qed

lemma price_result_cases:
  assumes "snd (get_crypto_price w ident) = Inr s"
  shows "s = SERVICE_UNAVAILABLE \<or> s = PRICE_NOT_AVAILABLE
    \<or> (\<exists>data usd. http_get w (price_url ident) = Json data
          \<and> nested_usd data ident = Some usd \<and> s = ''$'' @ py_str w usd)"
proof (cases "http_get w (price_url ident)")
  case RequestFailed
  with assms show ?thesis by (simp add: get_crypto_price_def fetch_json_def Let_def)
next
  case NotJson
  with assms show ?thesis by (simp add: get_crypto_price_def fetch_json_def Let_def)
next
  case (Json data)
  show ?thesis
  proof (cases data)
    case (JObj items)
    show ?thesis
    proof (cases "map_of items ident")
      case None
      with assms Json JObj show ?thesis
        by (simp add: get_crypto_price_def fetch_json_def Let_def)
    next
      case (Some entry)
      with assms Json JObj show ?thesis
        by (cases entry)
          (auto simp: get_crypto_price_def fetch_json_def Let_def nested_usd_def
                split: if_splits option.splits)
    qed
  qed (use assms Json in
        \<open>auto simp: get_crypto_price_def fetch_json_def Let_def split: if_splits\<close>)
qed

lemma price_not_available_on_objects:
  assumes "http_get w (price_url ident) = Json (JObj items)"
    and "map_of items ident = None
      \<or> (\<exists>entry. map_of items ident = Some (JObj entry) \<and> map_of entry ''usd'' = None)"
  shows "snd (get_crypto_price w ident) = Inr PRICE_NOT_AVAILABLE"
  using assms by (auto simp: get_crypto_price_def fetch_json_def Let_def)

lemma bitcoin_65000_price:
  "snd (get_crypto_price (test_world (\<lambda>url. Json BITCOIN_65000)) ''bitcoin'') = Inr ''$65000''"
  by (simp add: get_crypto_price_def BITCOIN_65000_def string_eval world_eval)

text \<open>
  C2. The claim holds where the response maps the identifier to a nested USD value
  (\<^verbatim>\<open>price_of_nested_usd\<close>, \<^verbatim>\<open>bitcoin_65000_price\<close>), where the body is an object without the
  identifier key or with an object for it that has no field \<^verbatim>\<open>usd\<close>
  (\<^verbatim>\<open>price_not_available_on_objects\<close>), and for a failed request. It fails when the USD
  field is missing because the entry of the identifier is not an object: for a number or
  \<^verbatim>\<open>null\<close> in its place, \<^verbatim>\<open>'usd' in data[crypto_name]\<close> raises \<^verbatim>\<open>TypeError\<close>, which the
  function does not take, and no message is returned.
\<close>

theorem missing_usd_field_raises:
  "nested_usd WRONG_SHAPE ''bitcoin'' = None
   \<and> snd (get_crypto_price (test_world (\<lambda>url. Json WRONG_SHAPE)) ''bitcoin'') = Inl TypeError
   \<and> nested_usd NULL_ENTRY ''bitcoin'' = None
   \<and> snd (get_crypto_price (test_world (\<lambda>url. Json NULL_ENTRY)) ''bitcoin'') = Inl TypeError"
  by (simp add: nested_usd_def get_crypto_price_def WRONG_SHAPE_def NULL_ENTRY_def world_eval)

section \<open>get\_top\_5\_crypto\_prices\<close>

lemma price_line_snapshot:
  "snapshot crypto \<noteq> None \<Longrightarrow> price_line w crypto = Inr (snapshot_line w crypto)"
  by (auto simp: snapshot_def snapshot_line_def price_line_def
      split: json.splits option.splits)

lemma append_prices_snapshots:
  "\<forall>c \<in> set cryptos. snapshot c \<noteq> None \<Longrightarrow>
   append_prices w prices cryptos = Inr (prices @ map (snapshot_line w) cryptos)"
  by (induction cryptos arbitrary: prices) (simp_all add: price_line_snapshot)

lemma top_prices_snapshots:
  assumes "http_get w markets_url = Json (JArr cryptos)"
    and "\<forall>c \<in> set cryptos. snapshot c \<noteq> None"
  shows "snd (get_top_5_crypto_prices w)
    = Inr (str_join ''\<newline>'' (map (snapshot_line w) cryptos))"
  using assms(1) append_prices_snapshots [OF assms(2), of w "[]"]
  by (simp add: get_top_5_crypto_prices_def fetch_json_def Let_def)

lemma text_lines_single: "CHR ''\<newline>'' \<notin> set l \<Longrightarrow> text_lines l = [l]"
  by (induction l) auto

lemma text_lines_append:
  "CHR ''\<newline>'' \<notin> set l \<Longrightarrow> text_lines (l @ CHR ''\<newline>'' # rest) = l # text_lines rest"
  by (induction l) auto

lemma text_lines_join:
  "ls \<noteq> [] \<Longrightarrow> \<forall>l \<in> set ls. CHR ''\<newline>'' \<notin> set l \<Longrightarrow>
   text_lines (str_join ''\<newline>'' ls) = ls"
proof (induction "''\<newline>''" ls rule: str_join.induct)
  case 1
  then show ?case by simp
next
  case (2 x)
  then show ?case by (simp add: text_lines_single)
next
  case (3 x y ys)
  then show ?case
    using text_lines_append [of x "str_join ''\<newline>'' (y # ys)"] by simp
qed

text \<open>
  C5, as the claim states it, fails: for an upstream answer of six well-formed entries the
  function returns a block of six lines, since nothing in it cuts the list to five.
\<close>

theorem top_prices_six_entries:
  "snd (get_top_5_crypto_prices (test_world (\<lambda>url. Json SIX_MARKETS))) = Inr SIX_LINES
   \<and> \<not> length (text_lines SIX_LINES) \<le> 5"
  by (simp add: get_top_5_crypto_prices_def SIX_MARKETS_def SIX_LINES_def price_line_def
      string_eval world_eval)

text \<open>
  C5, amended. For an upstream answer that is a list of market snapshots, the function
  makes its one request with \<^verbatim>\<open>per_page=5\<close> and returns, joined by newlines into one block and
  in the order of the answer, one text \<^verbatim>\<open>{name} ({SYMBOL}): ${price}\<close> for every entry of the
  answer, the symbol upper-cased by \<^verbatim>\<open>str.upper\<close>; it does not cut the answer to five. When
  the answer is not empty and none of these texts has a newline in it, they are the lines
  of the block: it has as many lines as the answer has entries, at most five when the
  answer has at most five.
\<close>

theorem top_prices_one_line_per_entry:
  assumes "http_get w markets_url = Json (JArr cryptos)"
    and "\<forall>c \<in> set cryptos. snapshot c \<noteq> None"
  shows "fst (get_top_5_crypto_prices w) = [HttpGet markets_url]
    \<and> snd (get_top_5_crypto_prices w)
        = Inr (str_join ''\<newline>'' (map (snapshot_line w) cryptos))
    \<and> length (map (snapshot_line w) cryptos) = length cryptos
    \<and> (cryptos \<noteq> [] \<and> (\<forall>c \<in> set cryptos. CHR ''\<newline>'' \<notin> set (snapshot_line w c)) \<longrightarrow>
         (\<exists>block. snd (get_top_5_crypto_prices w) = Inr block
            \<and> text_lines block = map (snapshot_line w) cryptos
            \<and> length (text_lines block) = length cryptos
            \<and> (length cryptos \<le> 5 \<longrightarrow> length (text_lines block) \<le> 5)))"
proof (intro conjI impI)
  show "fst (get_top_5_crypto_prices w) = [HttpGet markets_url]"
    by (simp add: get_top_5_crypto_prices_def Let_def)
next
  show block: "snd (get_top_5_crypto_prices w)
        = Inr (str_join ''\<newline>'' (map (snapshot_line w) cryptos))"
    using assms by (rule top_prices_snapshots)
  assume "cryptos \<noteq> [] \<and> (\<forall>c \<in> set cryptos. CHR ''\<newline>'' \<notin> set (snapshot_line w c))"
  then have "text_lines (str_join ''\<newline>'' (map (snapshot_line w) cryptos))
      = map (snapshot_line w) cryptos"
    by (intro text_lines_join) auto
  with block show "\<exists>block. snd (get_top_5_crypto_prices w) = Inr block
            \<and> text_lines block = map (snapshot_line w) cryptos
            \<and> length (text_lines block) = length cryptos
            \<and> (length cryptos \<le> 5 \<longrightarrow> length (text_lines block) \<le> 5)"
    by simp
qed simp

theorem top_prices_one_line_per_entry_witness:
  "snd (get_top_5_crypto_prices (test_world (\<lambda>url. Json (JArr TWO_MARKETS))))
     = Inr ''Bitcoin (BTC): $65000\<newline>Ethereum (ETH): $3000''
   \<and> text_lines ''Bitcoin (BTC): $65000\<newline>Ethereum (ETH): $3000''
     = [''Bitcoin (BTC): $65000'', ''Ethereum (ETH): $3000'']"
proof -
  have lines: "map (snapshot_line (test_world (\<lambda>url. Json (JArr TWO_MARKETS)))) TWO_MARKETS
      = [''Bitcoin (BTC): $65000'', ''Ethereum (ETH): $3000'']"
    by (simp add: TWO_MARKETS_def snapshot_line_def snapshot_def string_eval)
  have shaped: "\<forall>c \<in> set TWO_MARKETS. snapshot c \<noteq> None"
    by (simp add: TWO_MARKETS_def snapshot_def)
  have upstream: "http_get (test_world (\<lambda>url. Json (JArr TWO_MARKETS))) markets_url
      = Json (JArr TWO_MARKETS)"
    by (simp add: test_world_def)
  show ?thesis
    using top_prices_one_line_per_entry [OF upstream shaped] lines
    by simp
qed

section \<open>generate\_price\_chart\<close>

lemma mantissa_shift_small: "a < 9007199254740992 \<Longrightarrow> mantissa_shift a = 0"
  by (subst mantissa_shift.simps) simp

lemma mantissa_shift_bound: "mantissa_shift 9007199254740992 = 1"
  by (subst mantissa_shift.simps) (simp add: mantissa_shift_small)

lemma float64_of_small_nat:
  assumes "a \<le> 9007199254740992"
  shows "(let e = mantissa_shift a; q = a div 2 ^ e; r = a mod 2 ^ e;
              m = (if 2 ^ e < 2 * r \<or> (2 * r = 2 ^ e \<and> odd q) then q + 1 else q)
          in m * 2 ^ e) = a"
proof (cases "a < 9007199254740992")
  case True
  then show ?thesis by (simp add: mantissa_shift_small)
next
  case False
  with assms have "a = 9007199254740992" by simp
  then show ?thesis by (simp add: mantissa_shift_bound)
qed

lemma float64_exact:
  assumes "\<bar>i\<bar> \<le> 9007199254740992"
  shows "float64_of_int i = of_int i"
proof -
  have "nat \<bar>i\<bar> \<le> 9007199254740992" using assms by simp
  from float64_of_small_nat [OF this] show ?thesis
    unfolding float64_of_int_def Let_def by (cases "i < 0") simp_all
qed

lemma held_fits: "fits_float64 v \<Longrightarrow> held b v = number_value v"
  by (cases v) (simp_all add: float64_exact)

lemma held_int_column: "held False v = number_value v"
  by (cases v) simp_all

lemma column_exact:
  "list_all fits_float64 numbers \<or> \<not> list_ex is_float numbers \<Longrightarrow>
   column numbers = map number_value numbers"
  by (auto simp: column_def list_all_iff held_fits held_int_column)

lemma in_range_fits: "\<bar>number_value t\<bar> \<le> 9000000000000 \<Longrightarrow> fits_float64 t"
  by (cases t) simp_all

lemma timestamp_column:
  assumes "timestamps_in_range points"
  shows "column (map fst points) = map (number_value \<circ> fst) points"
    and "to_datetime (map (number_value \<circ> fst) points)
      = Some (Inr (map (number_value \<circ> fst) points))"
proof -
  have near: "\<bar>number_value (fst x)\<bar> \<le> 9000000000000" if "x \<in> set points" for x
    using assms that by (auto simp: timestamps_in_range_def list_all_iff)
  then have "list_all fits_float64 (map fst points)"
    by (simp add: list_all_iff in_range_fits)
  then show "column (map fst points) = map (number_value \<circ> fst) points"
    by (simp add: column_exact)
  have "\<not> 10000000000000000000 \<le> \<bar>number_value (fst x)\<bar>" if "x \<in> set points" for x
    using near [OF that] by linarith
  then have "\<not> list_ex (\<lambda>t. 10000000000000000000 \<le> \<bar>t\<bar>) (map (number_value \<circ> fst) points)"
    by (simp add: list_ex_iff)
  moreover have "list_all (\<lambda>t. \<bar>t\<bar> \<le> 9000000000000) (map (number_value \<circ> fst) points)"
    using near by (simp add: list_all_iff)
  ultimately show "to_datetime (map (number_value \<circ> fst) points)
      = Some (Inr (map (number_value \<circ> fst) points))"
    by (simp add: to_datetime_def)
qed

lemma number_pairs_series:
  "is_series points \<Longrightarrow> number_pairs (series_rows points) = Some points"
  by (induction points) (auto simp: is_series_def series_rows_def number_pair_def)

lemma DataFrame_series:
  "is_series points \<Longrightarrow>
   DataFrame (JArr (series_rows points))
     = Some (column (map fst points), column (map snd points))"
  by (simp add: DataFrame_def number_pairs_series)

lemma iloc_first_last:
  assumes "xs \<noteq> []"
  shows "iloc xs 0 = Inr (hd xs)" and "iloc xs (- 1) = Inr (last xs)"
proof -
  show "iloc xs 0 = Inr (hd xs)"
    using assms by (cases xs) (simp_all add: iloc_def)
  have "nat (int (length xs) - 1) = length xs - 1" by simp
  then show "iloc xs (- 1) = Inr (last xs)"
    using assms by (simp add: iloc_def Let_def last_conv_nth)
qed

text \<open>The figure that the function asks for, for a series.\<close>

lemma chart_of_series:
  assumes "http_get w (chart_url crypto_id) = Json (JObj items)"
    and "map_of items ''prices'' = Some (JArr (series_rows points))"
    and "is_series points" and "points \<noteq> []" and "timestamps_in_range points"
  shows "generate_price_chart w crypto_id
    = ([HttpGet (chart_url crypto_id),
        Draw (plot w crypto_id (map (number_value \<circ> fst) points) (column (map snd points))
                (trend_color (column (map snd points))))],
       case matplotlib w (plot w crypto_id (map (number_value \<circ> fst) points)
                            (column (map snd points)) (trend_color (column (map snd points)))) of
         Inl e \<Rightarrow> None
       | Inr png \<Rightarrow> Some \<lparr>getvalue = png, tell = 0\<rparr>)"
proof -
  have prices: "column (map snd points) \<noteq> []"
    using assms(4) by (simp add: column_def)
  show ?thesis
    using assms(1,2) DataFrame_series [OF assms(3)] timestamp_column [OF assms(5)]
      iloc_first_last [OF prices]
    by (simp add: generate_price_chart_def fetch_json_def Let_def trend_color_def
        UPWARD_def DOWNWARD_def BytesIO_def write_bytes_def seek_def
        split: sum.splits)
qed

lemma chart_of_empty:
  assumes "http_get w (chart_url crypto_id) = Json (JObj items)"
    and "map_of items ''prices'' = Some (JArr [])"
  shows "generate_price_chart w crypto_id = ([HttpGet (chart_url crypto_id)], None)"
  using assms
  by (simp add: generate_price_chart_def fetch_json_def DataFrame_def column_def
      to_datetime_def Let_def iloc_def)

lemma chart_of_missing:
  assumes "http_get w (chart_url crypto_id) = Json (JObj items)"
    and "map_of items ''prices'' = None"
  shows "generate_price_chart w crypto_id = ([HttpGet (chart_url crypto_id)], None)"
  using assms
  by (simp add: generate_price_chart_def fetch_json_def Let_def)

lemma chart_of_far_timestamp:
  assumes "http_get w (chart_url crypto_id) = Json (JObj items)"
    and "map_of items ''prices'' = Some (JArr (series_rows points))"
    and "is_series points"
    and "list_ex (\<lambda>t. 10000000000000000000 \<le> \<bar>t\<bar>) (column (map fst points))"
  shows "generate_price_chart w crypto_id = ([HttpGet (chart_url crypto_id)], None)"
  using assms(1,2,4) DataFrame_series [OF assms(3)]
  by (simp add: generate_price_chart_def fetch_json_def to_datetime_def Let_def)

lemma chart_world_prices:
  "http_get (chart_world points) (chart_url crypto_id)
     = Json (JObj [(''prices'', JArr (series_rows points))])"
  "map_of [(''prices'', JArr (series_rows points))] ''prices''
     = Some (JArr (series_rows points))"
  by (simp_all add: chart_world_def test_world_def)

lemma sample_series:
  "is_series RISING" "is_series FALLING" "is_series FLAT" "is_series ROUNDED"
  "is_series FAR_AWAY" "is_series TOO_LATE"
  "timestamps_in_range RISING" "timestamps_in_range FALLING" "timestamps_in_range FLAT"
  "timestamps_in_range ROUNDED"
  by (simp_all add: is_series_def timestamps_in_range_def RISING_def FALLING_def FLAT_def
      ROUNDED_def FAR_AWAY_def TOO_LATE_def)

lemma mantissa_shift_rounded: "mantissa_shift 9007199254740993 = 1"
  by (subst mantissa_shift.simps) (simp add: mantissa_shift_small)

lemma float64_rounds_to_even: "float64_of_int 9007199254740993 = 9007199254740992"
  by (simp add: float64_of_int_def Let_def mantissa_shift_rounded)

lemma sample_columns:
  "column (map snd RISING) = [100, 101.5]"
  "column (map snd FALLING) = [100, 99]"
  "column (map snd FLAT) = [100]"
  "column (map snd ROUNDED) = [9007199254740992, 9007199254740992]"
  by (simp_all add: column_def RISING_def FALLING_def FLAT_def ROUNDED_def
      float64_rounds_to_even)

text \<open>
  C6, as the claim states it, fails. In the first series the last price, the float
  9007199254740992, is less than the first one, the int 9007199254740993; the column is
  float64, both prices are held as 9007199254740992, and the figure is drawn in the upward
  colour. In the second series a timestamp is beyond what pandas holds, and no figure is
  drawn at all.
\<close>

theorem rounded_prices_drawn_upward:
  "fst (generate_price_chart (chart_world ROUNDED) ''bitcoin'')
     = [HttpGet (chart_url ''bitcoin''),
        Draw (plot (chart_world ROUNDED) ''bitcoin'' [0, 60000]
                [9007199254740992, 9007199254740992] UPWARD)]
   \<and> number_value (snd (last ROUNDED)) < number_value (snd (hd ROUNDED))
   \<and> UPWARD \<noteq> DOWNWARD
   \<and> generate_price_chart (chart_world TOO_LATE) ''bitcoin''
     = ([HttpGet (chart_url ''bitcoin'')], None)"
proof (intro conjI)
  have "trend_color [9007199254740992, 9007199254740992] = UPWARD"
    by (simp add: trend_color_def)
  then show "fst (generate_price_chart (chart_world ROUNDED) ''bitcoin'')
     = [HttpGet (chart_url ''bitcoin''),
        Draw (plot (chart_world ROUNDED) ''bitcoin'' [0, 60000]
                [9007199254740992, 9007199254740992] UPWARD)]"
    using chart_of_series [OF chart_world_prices sample_series(4) _ sample_series(10),
        of "''bitcoin''"]
    by (simp add: sample_columns) (simp add: ROUNDED_def)
next
  show "number_value (snd (last ROUNDED)) < number_value (snd (hd ROUNDED))"
    by (simp add: ROUNDED_def)
next
  show "UPWARD \<noteq> DOWNWARD"
    by (simp add: UPWARD_def DOWNWARD_def)
next
  have "list_ex (\<lambda>t. 10000000000000000000 \<le> \<bar>t\<bar>) (column (map fst TOO_LATE))"
    by (simp add: column_def TOO_LATE_def)
  then show "generate_price_chart (chart_world TOO_LATE) ''bitcoin''
     = ([HttpGet (chart_url ''bitcoin'')], None)"
    using chart_of_far_timestamp [OF chart_world_prices sample_series(6)] by simp
qed

text \<open>
  C6, amended. For every non-empty series of \<^verbatim>\<open>[timestamp, price]\<close> rows of numbers whose
  timestamps lie within 9e12 milliseconds of the epoch, the function has matplotlib draw
  one figure, whose line is that of the price column and has the upward colour when the
  last price of the column is greater than or equal to the first and the downward colour
  when it is less; equal prices give the upward colour. The column holds an int price
  rounded to float64 when another price of the series is a float. When no price is a
  float, or every int price is at most 9007199254740992 in magnitude, the column holds
  the prices themselves and the colour is that of the claim. An image that is returned is
  what matplotlib wrote for this figure.
\<close>

theorem chart_trend_color:
  assumes "http_get w (chart_url crypto_id) = Json (JObj items)"
    and "map_of items ''prices'' = Some (JArr (series_rows points))"
    and "is_series points" and "points \<noteq> []" and "timestamps_in_range points"
  shows "\<exists>fig. fst (generate_price_chart w crypto_id) = [HttpGet (chart_url crypto_id), Draw fig]
    \<and> line_y fig = column (map snd points)
    \<and> (last (line_y fig) \<ge> hd (line_y fig) \<longrightarrow> line_color fig = ''#26a69a'')
    \<and> (last (line_y fig) < hd (line_y fig) \<longrightarrow> line_color fig = ''#ef5350'')
    \<and> (prices_fit points \<or> \<not> list_ex is_float (map snd points) \<longrightarrow>
         line_y fig = map (number_value \<circ> snd) points
         \<and> (number_value (snd (last points)) \<ge> number_value (snd (hd points)) \<longrightarrow>
              line_color fig = ''#26a69a'')
         \<and> (number_value (snd (last points)) < number_value (snd (hd points)) \<longrightarrow>
              line_color fig = ''#ef5350''))
    \<and> (\<forall>buf. snd (generate_price_chart w crypto_id) = Some buf \<longrightarrow>
           matplotlib w fig = Inr (getvalue buf))"
proof -
  let ?fig = "plot w crypto_id (map (number_value \<circ> fst) points) (column (map snd points))
                (trend_color (column (map snd points)))"
  have exact: "column (map snd points) = map (number_value \<circ> snd) points"
    if "prices_fit points \<or> \<not> list_ex is_float (map snd points)"
  proof -
    have "list_all fits_float64 (map snd points) \<or> \<not> list_ex is_float (map snd points)"
      using that by (auto simp: prices_fit_def list_all_iff)
    then show ?thesis by (simp add: column_exact)
  qed
  have ends: "hd (map (number_value \<circ> snd) points) = number_value (snd (hd points))"
    "last (map (number_value \<circ> snd) points) = number_value (snd (last points))"
    using assms(4) by (simp_all add: hd_map last_map)
  have "fst (generate_price_chart w crypto_id) = [HttpGet (chart_url crypto_id), Draw ?fig]"
    and "\<forall>buf. snd (generate_price_chart w crypto_id) = Some buf \<longrightarrow>
           matplotlib w ?fig = Inr (getvalue buf)"
    using chart_of_series [OF assms] by (auto split: sum.splits)
  moreover have "line_y ?fig = column (map snd points)"
    and "last (line_y ?fig) \<ge> hd (line_y ?fig) \<longrightarrow> line_color ?fig = ''#26a69a''"
    and "last (line_y ?fig) < hd (line_y ?fig) \<longrightarrow> line_color ?fig = ''#ef5350''"
    by (simp_all add: plot_def trend_color_def UPWARD_def DOWNWARD_def)
  moreover have "prices_fit points \<or> \<not> list_ex is_float (map snd points) \<longrightarrow>
         line_y ?fig = map (number_value \<circ> snd) points
         \<and> (number_value (snd (last points)) \<ge> number_value (snd (hd points)) \<longrightarrow>
              line_color ?fig = ''#26a69a'')
         \<and> (number_value (snd (last points)) < number_value (snd (hd points)) \<longrightarrow>
              line_color ?fig = ''#ef5350'')"
    using exact ends by (auto simp: plot_def trend_color_def UPWARD_def DOWNWARD_def)
  ultimately show ?thesis by blast
qed

theorem chart_trend_color_witness:
  "(\<exists>fig. fst (generate_price_chart (chart_world RISING) ''bitcoin'')
            = [HttpGet (chart_url ''bitcoin''), Draw fig]
      \<and> line_y fig = [100, 101.5] \<and> line_color fig = ''#26a69a'')
   \<and> (\<exists>fig. fst (generate_price_chart (chart_world FLAT) ''bitcoin'')
            = [HttpGet (chart_url ''bitcoin''), Draw fig]
      \<and> line_y fig = [100] \<and> line_color fig = ''#26a69a'')
   \<and> (\<exists>fig. fst (generate_price_chart (chart_world FALLING) ''bitcoin'')
            = [HttpGet (chart_url ''bitcoin''), Draw fig]
      \<and> line_y fig = [100, 99] \<and> line_color fig = ''#ef5350'')"
proof (intro conjI)
  have "RISING \<noteq> []" by (simp add: RISING_def)
  from chart_trend_color [OF chart_world_prices sample_series(1) this sample_series(7),
      of "''bitcoin''"]
  show "\<exists>fig. fst (generate_price_chart (chart_world RISING) ''bitcoin'')
            = [HttpGet (chart_url ''bitcoin''), Draw fig]
      \<and> line_y fig = [100, 101.5] \<and> line_color fig = ''#26a69a''"
    unfolding sample_columns by force
next
  have "FLAT \<noteq> []" by (simp add: FLAT_def)
  from chart_trend_color [OF chart_world_prices sample_series(3) this sample_series(9),
      of "''bitcoin''"]
  show "\<exists>fig. fst (generate_price_chart (chart_world FLAT) ''bitcoin'')
            = [HttpGet (chart_url ''bitcoin''), Draw fig]
      \<and> line_y fig = [100] \<and> line_color fig = ''#26a69a''"
    unfolding sample_columns by force
next
  have "FALLING \<noteq> []" by (simp add: FALLING_def)
  from chart_trend_color [OF chart_world_prices sample_series(2) this sample_series(8),
      of "''bitcoin''"]
  show "\<exists>fig. fst (generate_price_chart (chart_world FALLING) ''bitcoin'')
            = [HttpGet (chart_url ''bitcoin''), Draw fig]
      \<and> line_y fig = [100, 99] \<and> line_color fig = ''#ef5350''"
    unfolding sample_columns by force
qed

lemma far_timestamp_in_column:
  assumes "is_series points" and "(t, p) \<in> set points"
    and "10000000000000000000 \<le> \<bar>number_value t\<bar>"
  shows "list_ex (\<lambda>t. 10000000000000000000 \<le> \<bar>t\<bar>) (column (map fst points))"
proof -
  have "is_number t"
    using assms(1,2) by (auto simp: is_series_def list_all_iff)
  with assms(3) obtain x where t: "t = JFloat x"
    by (cases t) auto
  with assms(2) have "list_ex is_float (map fst points)"
    by (force simp: list_ex_iff)
  then have "held (list_ex is_float (map fst points)) t = x"
    using t by simp
  with assms(2,3) t show ?thesis
    unfolding column_def list_ex_iff by force
qed

lemma png_not_empty: "is_png png \<Longrightarrow> png \<noteq> []"
  by (auto simp: is_png_def PNG_SIGNATURE_def)

text \<open>
  C7, as the claim states it, fails. The series \<^verbatim>\<open>[[1e30, 100]]\<close> is not empty, and the
  function returns \<^verbatim>\<open>None\<close>, in a world whose matplotlib writes an image for every figure:
  \<^verbatim>\<open>pd.to_datetime\<close> raises on the timestamp and the second \<^verbatim>\<open>except\<close> clause takes it. So
  does it for any series when matplotlib raises.
\<close>

theorem far_timestamp_no_chart:
  "FAR_AWAY \<noteq> [] \<and> is_series FAR_AWAY
   \<and> generate_price_chart (chart_world FAR_AWAY) ''bitcoin''
     = ([HttpGet (chart_url ''bitcoin'')], None)
   \<and> snd (generate_price_chart (no_renderer (chart_world RISING)) ''bitcoin'') = None"
proof (intro conjI)
  show "FAR_AWAY \<noteq> []" by (simp add: FAR_AWAY_def)
  show "is_series FAR_AWAY" by (rule sample_series)
  have "list_ex (\<lambda>t. 10000000000000000000 \<le> \<bar>t\<bar>) (column (map fst FAR_AWAY))"
    by (simp add: column_def FAR_AWAY_def)
  then show "generate_price_chart (chart_world FAR_AWAY) ''bitcoin''
     = ([HttpGet (chart_url ''bitcoin'')], None)"
    using chart_of_far_timestamp [OF chart_world_prices sample_series(5)] by simp
  have "RISING \<noteq> []" by (simp add: RISING_def)
  moreover have "http_get (no_renderer (chart_world RISING)) (chart_url ''bitcoin'')
      = Json (JObj [(''prices'', JArr (series_rows RISING))])"
    by (simp add: no_renderer_def chart_world_def test_world_def)
  ultimately show "snd (generate_price_chart (no_renderer (chart_world RISING)) ''bitcoin'') = None"
    using chart_of_series [OF _ chart_world_prices(2) sample_series(1) _ sample_series(7),
        of "no_renderer (chart_world RISING)" "''bitcoin''"]
    by (simp add: no_renderer_def)
qed

text \<open>
  C7, amended. For every non-empty series of \<^verbatim>\<open>[timestamp, price]\<close> rows of numbers whose
  timestamps lie within 9e12 milliseconds of the epoch, the function has matplotlib draw
  one figure; when matplotlib writes an image for it, the function returns a buffer that
  holds the bytes written, which is not empty when they are a PNG stream, at position 0;
  when matplotlib raises, it returns \<^verbatim>\<open>None\<close>. For the empty series, for a response
  without the field \<^verbatim>\<open>prices\<close>, and for a series of numbers with a timestamp of 1e19
  milliseconds or more, it draws nothing and returns \<^verbatim>\<open>None\<close>. It raises in none of these
  cases.
\<close>

theorem chart_buffer_or_none:
  "(http_get w (chart_url crypto_id) = Json (JObj items)
      \<and> map_of items ''prices'' = Some (JArr (series_rows points))
      \<and> is_series points \<and> points \<noteq> [] \<and> timestamps_in_range points \<longrightarrow>
      (\<exists>fig. fst (generate_price_chart w crypto_id) = [HttpGet (chart_url crypto_id), Draw fig]
         \<and> (\<forall>png. matplotlib w fig = Inr png \<longrightarrow>
               snd (generate_price_chart w crypto_id) = Some \<lparr>getvalue = png, tell = 0\<rparr>
               \<and> (is_png png \<longrightarrow> png \<noteq> []))
         \<and> (\<forall>e. matplotlib w fig = Inl e \<longrightarrow>
               snd (generate_price_chart w crypto_id) = None)))
   \<and> (http_get w (chart_url crypto_id) = Json (JObj items)
      \<and> map_of items ''prices'' = Some (JArr []) \<longrightarrow>
      generate_price_chart w crypto_id = ([HttpGet (chart_url crypto_id)], None))
   \<and> (http_get w (chart_url crypto_id) = Json (JObj items)
      \<and> map_of items ''prices'' = None \<longrightarrow>
      generate_price_chart w crypto_id = ([HttpGet (chart_url crypto_id)], None))
   \<and> (http_get w (chart_url crypto_id) = Json (JObj items)
      \<and> map_of items ''prices'' = Some (JArr (series_rows points))
      \<and> is_series points \<and> (t, p) \<in> set points
      \<and> 10000000000000000000 \<le> \<bar>number_value t\<bar> \<longrightarrow>
      generate_price_chart w crypto_id = ([HttpGet (chart_url crypto_id)], None))"
proof (intro conjI impI)
  assume series: "http_get w (chart_url crypto_id) = Json (JObj items)
      \<and> map_of items ''prices'' = Some (JArr (series_rows points))
      \<and> is_series points \<and> points \<noteq> [] \<and> timestamps_in_range points"
  let ?fig = "plot w crypto_id (map (number_value \<circ> fst) points) (column (map snd points))
                (trend_color (column (map snd points)))"
  have "generate_price_chart w crypto_id
    = ([HttpGet (chart_url crypto_id), Draw ?fig],
       case matplotlib w ?fig of Inl e \<Rightarrow> None | Inr png \<Rightarrow> Some \<lparr>getvalue = png, tell = 0\<rparr>)"
    using series by (intro chart_of_series) auto
  then have "fst (generate_price_chart w crypto_id) = [HttpGet (chart_url crypto_id), Draw ?fig]
         \<and> (\<forall>png. matplotlib w ?fig = Inr png \<longrightarrow>
               snd (generate_price_chart w crypto_id) = Some \<lparr>getvalue = png, tell = 0\<rparr>
               \<and> (is_png png \<longrightarrow> png \<noteq> []))
         \<and> (\<forall>e. matplotlib w ?fig = Inl e \<longrightarrow>
               snd (generate_price_chart w crypto_id) = None)"
    by (simp add: png_not_empty)
  then show "\<exists>fig. fst (generate_price_chart w crypto_id) = [HttpGet (chart_url crypto_id), Draw fig]
         \<and> (\<forall>png. matplotlib w fig = Inr png \<longrightarrow>
               snd (generate_price_chart w crypto_id) = Some \<lparr>getvalue = png, tell = 0\<rparr>
               \<and> (is_png png \<longrightarrow> png \<noteq> []))
         \<and> (\<forall>e. matplotlib w fig = Inl e \<longrightarrow>
               snd (generate_price_chart w crypto_id) = None)"
    by (rule exI)
next
  assume "http_get w (chart_url crypto_id) = Json (JObj items)
      \<and> map_of items ''prices'' = Some (JArr [])"
  then show "generate_price_chart w crypto_id = ([HttpGet (chart_url crypto_id)], None)"
    by (simp add: chart_of_empty)
next
  assume "http_get w (chart_url crypto_id) = Json (JObj items)
      \<and> map_of items ''prices'' = None"
  then show "generate_price_chart w crypto_id = ([HttpGet (chart_url crypto_id)], None)"
    by (simp add: chart_of_missing)
next
  assume far: "http_get w (chart_url crypto_id) = Json (JObj items)
      \<and> map_of items ''prices'' = Some (JArr (series_rows points))
      \<and> is_series points \<and> (t, p) \<in> set points
      \<and> 10000000000000000000 \<le> \<bar>number_value t\<bar>"
  then have "list_ex (\<lambda>t. 10000000000000000000 \<le> \<bar>t\<bar>) (column (map fst points))"
    by (intro far_timestamp_in_column [of points t p]) auto
  with far show "generate_price_chart w crypto_id = ([HttpGet (chart_url crypto_id)], None)"
    by (intro chart_of_far_timestamp) auto
qed

theorem chart_buffer_or_none_witness:
  "generate_price_chart (chart_world RISING) ''bitcoin''
     = ([HttpGet (chart_url ''bitcoin''),
         Draw (plot (chart_world RISING) ''bitcoin'' [0, 60000] [100, 101.5] UPWARD)],
        Some \<lparr>getvalue = PNG_SIGNATURE, tell = 0\<rparr>)
   \<and> generate_price_chart (chart_world []) ''bitcoin'' = ([HttpGet (chart_url ''bitcoin'')], None)
   \<and> generate_price_chart (test_world (\<lambda>url. Json (JObj []))) ''bitcoin''
     = ([HttpGet (chart_url ''bitcoin'')], None)
   \<and> generate_price_chart (chart_world TOO_LATE) ''bitcoin''
     = ([HttpGet (chart_url ''bitcoin'')], None)"
proof (intro conjI)
  have ne: "RISING \<noteq> []" by (simp add: RISING_def)
  have png: "matplotlib (chart_world RISING) fig = Inr PNG_SIGNATURE" for fig
    by (simp add: chart_world_def test_world_def)
  obtain fig where fig: "fst (generate_price_chart (chart_world RISING) ''bitcoin'')
        = [HttpGet (chart_url ''bitcoin''), Draw fig]"
    and "\<forall>png. matplotlib (chart_world RISING) fig = Inr png \<longrightarrow>
           snd (generate_price_chart (chart_world RISING) ''bitcoin'')
             = Some \<lparr>getvalue = png, tell = 0\<rparr> \<and> (is_png png \<longrightarrow> png \<noteq> [])"
    using chart_buffer_or_none
        [where w = "chart_world RISING" and crypto_id = "''bitcoin''" and points = RISING
           and items = "[(''prices'', JArr (series_rows RISING))]"]
      chart_world_prices(1) [of RISING "''bitcoin''"] chart_world_prices(2) [of RISING]
      sample_series(1,7) ne
    by blast
  with png have "snd (generate_price_chart (chart_world RISING) ''bitcoin'')
      = Some \<lparr>getvalue = PNG_SIGNATURE, tell = 0\<rparr>"
    by blast
  moreover have "fst (generate_price_chart (chart_world RISING) ''bitcoin'')
      = [HttpGet (chart_url ''bitcoin''),
         Draw (plot (chart_world RISING) ''bitcoin'' [0, 60000] [100, 101.5] UPWARD)]"
    using chart_of_series [OF chart_world_prices sample_series(1) ne sample_series(7),
        of "''bitcoin''"]
    by (simp add: sample_columns trend_color_def) (simp add: RISING_def)
  ultimately show "generate_price_chart (chart_world RISING) ''bitcoin''
     = ([HttpGet (chart_url ''bitcoin''),
         Draw (plot (chart_world RISING) ''bitcoin'' [0, 60000] [100, 101.5] UPWARD)],
        Some \<lparr>getvalue = PNG_SIGNATURE, tell = 0\<rparr>)"
    by (simp add: prod_eq_iff)
next
  show "generate_price_chart (chart_world []) ''bitcoin'' = ([HttpGet (chart_url ''bitcoin'')], None)"
    using chart_buffer_or_none
        [where w = "chart_world []" and crypto_id = "''bitcoin''"
           and items = "[(''prices'', JArr [])]" and points = "[]" and t = JNull and p = JNull]
    by (simp add: chart_world_def test_world_def series_rows_def)
next
  show "generate_price_chart (test_world (\<lambda>url. Json (JObj []))) ''bitcoin''
     = ([HttpGet (chart_url ''bitcoin'')], None)"
    using chart_buffer_or_none
        [where w = "test_world (\<lambda>url. Json (JObj []))" and crypto_id = "''bitcoin''"
           and items = "[]" and points = "[]" and t = JNull and p = JNull]
    by (simp add: test_world_def)
next
  show "generate_price_chart (chart_world TOO_LATE) ''bitcoin''
     = ([HttpGet (chart_url ''bitcoin'')], None)"
    using chart_buffer_or_none
        [where w = "chart_world TOO_LATE" and crypto_id = "''bitcoin''" and points = TOO_LATE
           and items = "[(''prices'', JArr (series_rows TOO_LATE))]"
           and t = "JFloat 1000000000000000000000000000000" and p = "JInt 101"]
      chart_world_prices(1) [of TOO_LATE "''bitcoin''"] chart_world_prices(2) [of TOO_LATE]
      sample_series(6)
    by (simp add: TOO_LATE_def)
qed

section \<open>Failures at the boundary of parser.py\<close>

lemma failed_request_absorbed:
  assumes "\<forall>url. http_get w url = RequestFailed \<or> http_get w url = NotJson"
  shows "snd (get_crypto_price w ident) = Inr SERVICE_UNAVAILABLE"
    and "snd (get_top_5_crypto_prices w) = Inr TOP_UNAVAILABLE"
    and "snd (get_top_5_crypto_list w) = Inr []"
    and "snd (generate_price_chart w crypto_id) = None"
proof -
  have failed: "fetch_json w url = Inl RequestException \<or> fetch_json w url = Inl JSONDecodeError"
    for url
    using assms [rule_format, of url] by (auto simp: fetch_json_def)
  show "snd (get_crypto_price w ident) = Inr SERVICE_UNAVAILABLE"
    using failed [of "price_url ident"] by (auto simp: get_crypto_price_def Let_def)
  show "snd (get_top_5_crypto_prices w) = Inr TOP_UNAVAILABLE"
    using failed [of markets_url] by (auto simp: get_top_5_crypto_prices_def Let_def)
  show "snd (get_top_5_crypto_list w) = Inr []"
    using failed [of markets_url] by (auto simp: get_top_5_crypto_list_def Let_def)
  show "snd (generate_price_chart w crypto_id) = None"
    using failed [of "chart_url crypto_id"] by (auto simp: generate_price_chart_def Let_def)
qed

text \<open>
  C4. The claim holds for \<^verbatim>\<open>generate_price_chart\<close>, whose second \<^verbatim>\<open>except\<close> clause takes every
  exception, and for a failed request or a body that is not JSON in the other three
  functions. It fails for a JSON body of another shape than the expected one: the three
  functions take a \<^verbatim>\<open>RequestException\<close> only, and the \<^verbatim>\<open>TypeError\<close> of reading such a body
  leaves them. Here the markets endpoint answers with an object in place of a list, and
  the price endpoint maps the identifier to a number in place of an object.
\<close>

theorem shape_errors_leave_parser:
  "snd (get_top_5_crypto_prices (test_world (\<lambda>url. Json ERROR_OBJECT))) = Inl TypeError
   \<and> snd (get_top_5_crypto_list (test_world (\<lambda>url. Json ERROR_OBJECT))) = Inl TypeError
   \<and> snd (get_crypto_price (test_world (\<lambda>url. Json WRONG_SHAPE)) ''bitcoin'') = Inl TypeError
   \<and> snd (generate_price_chart (test_world (\<lambda>url. Json WRONG_SHAPE)) ''bitcoin'') = None"
  by (simp add: get_top_5_crypto_prices_def get_top_5_crypto_list_def get_crypto_price_def
      generate_price_chart_def price_line_def ERROR_OBJECT_def WRONG_SHAPE_def world_eval)

section \<open>ask\_for\_crypto\<close>

lemma command_sets_intent:
  "user_data (price_command w ud) ''intent'' = Some ''get_price''"
  "user_data (chart_command w ud) ''intent'' = Some ''get_chart''"
  by (simp_all add: price_command_def chart_command_def ask_for_crypto_def Let_def
      split: prod.splits sum.splits)

lemma other_commands_keep_user_data:
  "user_data (start w ud) = ud" "user_data (top5 w ud) = ud"
  by (simp_all add: start_def top5_def split: prod.splits sum.splits)

lemma fallback_when_list_raises:
  "effects (ask_for_crypto (test_world (\<lambda>url. Json ERROR_OBJECT)) ud ''get_price'')
     = [HttpGet markets_url,
        ReplyText SELECT_TEXT
          (Some [[''Bitcoin''], [''Ethereum''], [''Binancecoin''], [''Ripple''], [''Cardano''],
                 [''Toncoin'']])]"
  by (simp add: ask_for_crypto_def get_top_5_crypto_list_def FALLBACK_LIST_def
      ERROR_OBJECT_def string_eval world_eval)

text \<open>
  C3. When the markets request fails, \<^verbatim>\<open>get_top_5_crypto_list\<close> returns the empty list and
  raises nothing, so the \<^verbatim>\<open>except\<close> clause that holds the fallback list is not entered: the
  keyboard offers the single label Toncoin, not the five fallback labels and Toncoin.
\<close>

theorem failed_request_offers_toncoin_only:
  "snd (get_top_5_crypto_list (test_world (\<lambda>url. RequestFailed))) = Inr []
   \<and> effects (ask_for_crypto (test_world (\<lambda>url. RequestFailed)) Map.empty ''get_price'')
     = [HttpGet markets_url, ReplyText SELECT_TEXT (Some [[''Toncoin'']])]"
  by (simp add: ask_for_crypto_def get_top_5_crypto_list_def string_eval world_eval)

section \<open>crypto\_handler\<close>

lemma lower_char_cases:
  "lower_char c = CHR ''t'' \<longleftrightarrow> c = CHR ''t'' \<or> c = CHR ''T''"
  "lower_char c = CHR ''o'' \<longleftrightarrow> c = CHR ''o'' \<or> c = CHR ''O''"
  "lower_char c = CHR ''n'' \<longleftrightarrow> c = CHR ''n'' \<or> c = CHR ''N''"
  "lower_char c = CHR ''c'' \<longleftrightarrow> c = CHR ''c'' \<or> c = CHR ''C''"
  "lower_char c = CHR ''i'' \<longleftrightarrow> c = CHR ''i'' \<or> c = CHR ''I''"
  by (auto simp: lower_char_def)

lemma upper_char_toncoin:
  "upper_char CHR ''t'' = CHR ''T''" "upper_char CHR ''o'' = CHR ''O''"
  "upper_char CHR ''n'' = CHR ''N''" "upper_char CHR ''c'' = CHR ''C''"
  "upper_char CHR ''i'' = CHR ''I''"
  by (simp_all add: upper_char_def)

lemma lower_is_toncoin: "map lower_char label = ''toncoin'' \<longleftrightarrow> toncoin_label label"
  unfolding toncoin_label_def
  by (auto simp: list_all2_Cons2 map_eq_Cons_conv lower_char_cases upper_char_toncoin)

lemma toncoin_label_ascii: "toncoin_label label \<Longrightarrow> ascii_str label"
  unfolding toncoin_label_def ascii_str_def
  by (auto simp: list_all2_Cons2 upper_char_toncoin)

lemma lower_Toncoin: "str_lower w ''Toncoin'' = ''toncoin''"
  by (simp add: string_eval)

lemma toncoin_identifier:
  "toncoin_label label \<Longrightarrow> label_identifier w label = ''the-open-network''"
  using toncoin_label_ascii [of label] lower_is_toncoin [of label]
  unfolding label_identifier_def lower_Toncoin by (simp add: str_lower_def)

lemma other_ascii_identifier:
  "ascii_str label \<Longrightarrow> \<not> toncoin_label label \<Longrightarrow>
   label_identifier w label = map lower_char label"
  using lower_is_toncoin [of label]
  unfolding label_identifier_def lower_Toncoin by (simp add: str_lower_def)

lemma http_calls_append: "http_calls (xs @ ys) = http_calls xs @ http_calls ys"
  by (induction xs rule: http_calls.induct) simp_all

lemma price_calls: "http_calls (fst (get_crypto_price w c)) = [price_url c]"
  by (simp add: get_crypto_price_def Let_def)

lemma chart_calls: "http_calls (fst (generate_price_chart w c)) = [chart_url c]"
  by (auto simp: generate_price_chart_def elsewhere_def Let_def
      split: sum.splits option.splits prod.splits)

lemma crypto_handler_price_calls:
  assumes "ud ''intent'' = Some ''get_price''"
  shows "http_calls (effects (crypto_handler w ud label))
    = [price_url (label_identifier w label)]"
proof -
  obtain gets result where call: "get_crypto_price w (label_identifier w label) = (gets, result)"
    by (cases "get_crypto_price w (label_identifier w label)")
  with price_calls [of w "label_identifier w label"]
  have "http_calls gets = [price_url (label_identifier w label)]" by simp
  with assms call show ?thesis
    unfolding crypto_handler_def label_identifier_def lower_Toncoin Let_def
    by (cases result) (simp_all add: http_calls_append)
qed

lemma crypto_handler_chart_calls:
  assumes "ud ''intent'' = Some ''get_chart''"
  shows "http_calls (effects (crypto_handler w ud label))
    = [chart_url (label_identifier w label)]"
proof -
  obtain gets image where call: "generate_price_chart w (label_identifier w label) = (gets, image)"
    by (cases "generate_price_chart w (label_identifier w label)")
  with chart_calls [of w "label_identifier w label"]
  have "http_calls gets = [chart_url (label_identifier w label)]" by simp
  with assms call show ?thesis
    unfolding crypto_handler_def label_identifier_def lower_Toncoin Let_def
    by (cases image) (simp_all add: http_calls_append)
qed

lemma intent_cleared_when_handler_returns:
  "ud ''intent'' = Some intent \<Longrightarrow> intent \<noteq> [] \<Longrightarrow>
   raised (crypto_handler w ud label) = None \<Longrightarrow>
   user_data (crypto_handler w ud label) ''intent'' = None"
  by (auto simp: crypto_handler_def Let_def split: prod.splits sum.splits if_splits)

lemma chart_intent_always_cleared:
  "ud ''intent'' = Some ''get_chart'' \<Longrightarrow>
   raised (crypto_handler w ud label) = None
   \<and> user_data (crypto_handler w ud label) ''intent'' = None"
  by (simp add: crypto_handler_def Let_def split: prod.splits)

text \<open>
  C8. With either intent pending, the one URL the handler fetches is that of the
  identifier of the label: \<^verbatim>\<open>the-open-network\<close> for a label that has the lower-case form of
  Toncoin, the label's own lower-case form for every other label, the lower-case form
  being that of \<^verbatim>\<open>str.lower\<close>. A label made of the letters of Toncoin in any mix of upper and
  lower case goes to \<^verbatim>\<open>the-open-network\<close>; every other label of ASCII characters goes to
  itself with A-Z replaced by a-z.
\<close>

theorem label_to_identifier:
  "(ud ''intent'' = Some ''get_price'' \<longrightarrow>
      http_calls (effects (crypto_handler w ud label)) = [price_url (label_identifier w label)])
   \<and> (ud ''intent'' = Some ''get_chart'' \<longrightarrow>
      http_calls (effects (crypto_handler w ud label)) = [chart_url (label_identifier w label)])
   \<and> (toncoin_label label \<longrightarrow>
      (ud ''intent'' = Some ''get_price'' \<longrightarrow>
         http_calls (effects (crypto_handler w ud label)) = [price_url ''the-open-network''])
      \<and> (ud ''intent'' = Some ''get_chart'' \<longrightarrow>
         http_calls (effects (crypto_handler w ud label)) = [chart_url ''the-open-network'']))
   \<and> (ascii_str label \<and> \<not> toncoin_label label \<longrightarrow>
      (ud ''intent'' = Some ''get_price'' \<longrightarrow>
         http_calls (effects (crypto_handler w ud label)) = [price_url (map lower_char label)])
      \<and> (ud ''intent'' = Some ''get_chart'' \<longrightarrow>
         http_calls (effects (crypto_handler w ud label)) = [chart_url (map lower_char label)]))"
  by (simp add: crypto_handler_price_calls crypto_handler_chart_calls toncoin_identifier
      other_ascii_identifier)

theorem label_to_identifier_witness:
  "http_calls (effects (crypto_handler (test_world (\<lambda>url. RequestFailed))
      [''intent'' \<mapsto> ''get_price''] ''TONcoin'')) = [price_url ''the-open-network'']
   \<and> http_calls (effects (crypto_handler (test_world (\<lambda>url. RequestFailed))
      [''intent'' \<mapsto> ''get_chart''] ''Bitcoin'')) = [chart_url ''bitcoin'']
   \<and> http_calls (effects (crypto_handler (accented_world (\<lambda>url. RequestFailed))
      [''intent'' \<mapsto> ''get_price''] UPPER_ETHER)) = [price_url LOWER_ETHER]"
proof (intro conjI)
  have price: "[''intent'' \<mapsto> ''get_price''] ''intent'' = Some ''get_price''"
    and chart: "[''intent'' \<mapsto> ''get_chart''] ''intent'' = Some ''get_chart''"
    by simp_all
  have ton: "toncoin_label ''TONcoin''" and bit: "\<not> toncoin_label ''Bitcoin''"
    by (simp_all add: toncoin_label_def upper_char_def)
  have low: "ascii_str ''Bitcoin''" "map lower_char ''Bitcoin'' = ''bitcoin''"
    by (simp_all add: string_eval)
  have accented: "label_identifier (accented_world (\<lambda>url. RequestFailed)) UPPER_ETHER
      = LOWER_ETHER"
    by (simp add: label_identifier_def accented_world_def UPPER_ETHER_def LOWER_ETHER_def
        test_world_def string_eval)
  show "http_calls (effects (crypto_handler (test_world (\<lambda>url. RequestFailed))
      [''intent'' \<mapsto> ''get_price''] ''TONcoin'')) = [price_url ''the-open-network'']"
    using label_to_identifier
        [where ud = "[''intent'' \<mapsto> ''get_price'']" and label = "''TONcoin''"
           and w = "test_world (\<lambda>url. RequestFailed)"]
      ton price
    by blast
  have "http_calls (effects (crypto_handler (test_world (\<lambda>url. RequestFailed))
      [''intent'' \<mapsto> ''get_chart''] ''Bitcoin'')) = [chart_url (map lower_char ''Bitcoin'')]"
    using label_to_identifier
        [where ud = "[''intent'' \<mapsto> ''get_chart'']" and label = "''Bitcoin''"
           and w = "test_world (\<lambda>url. RequestFailed)"]
      bit low(1) chart
    by blast
  then show "http_calls (effects (crypto_handler (test_world (\<lambda>url. RequestFailed))
      [''intent'' \<mapsto> ''get_chart''] ''Bitcoin'')) = [chart_url ''bitcoin'']"
    by (simp only: low(2))
  have "http_calls (effects (crypto_handler (accented_world (\<lambda>url. RequestFailed))
      [''intent'' \<mapsto> ''get_price''] UPPER_ETHER))
      = [price_url (label_identifier (accented_world (\<lambda>url. RequestFailed)) UPPER_ETHER)]"
    using label_to_identifier
        [where ud = "[''intent'' \<mapsto> ''get_price'']" and label = UPPER_ETHER
           and w = "accented_world (\<lambda>url. RequestFailed)"]
      price
    by blast
  then show "http_calls (effects (crypto_handler (accented_world (\<lambda>url. RequestFailed))
      [''intent'' \<mapsto> ''get_price''] UPPER_ETHER)) = [price_url LOWER_ETHER]"
    by (simp only: accented)
qed

text \<open>
  C10. A text message from a user with no pending intent makes the handler return at
  once: no reply, no request, the user's data as it was.
\<close>

theorem no_intent_no_action:
  assumes "ud ''intent'' = None"
  shows "crypto_handler w ud label = \<lparr>user_data = ud, effects = [], raised = None\<rparr>
    \<and> handle_update w ud (Text label) = \<lparr>user_data = ud, effects = [], raised = None\<rparr>"
  using assms by (simp add: crypto_handler_def handle_update_def)

theorem no_intent_no_action_witness:
  "crypto_handler (test_world (\<lambda>url. Json BITCOIN_65000)) Map.empty ''bitcoin''
     = \<lparr>user_data = Map.empty, effects = [], raised = None\<rparr>
   \<and> handle_update (test_world (\<lambda>url. Json BITCOIN_65000)) Map.empty (Text ''bitcoin'')
     = \<lparr>user_data = Map.empty, effects = [], raised = None\<rparr>"
  using no_intent_no_action [of Map.empty "test_world (\<lambda>url. Json BITCOIN_65000)" "''bitcoin''"]
  by simp

text \<open>
  C1. With the intent \<^verbatim>\<open>get_price\<close> pending and the price request failing,
  \<^verbatim>\<open>get_crypto_price\<close> returns its message that the service is unavailable. The handler
  looks for the pieces \<^verbatim>\<open>error\<close>, \<^verbatim>\<open>could not find\<close> and \<^verbatim>\<open>not available\<close>; the message has
  none of them (it says \<^verbatim>\<open>unavailable\<close>), so the reply shows it as the current price and is
  not the reply that the price could not be retrieved.
\<close>

theorem failed_request_shown_as_price:
  "effects (crypto_handler (test_world (\<lambda>url. RequestFailed))
      [''intent'' \<mapsto> ''get_price''] ''Bitcoin'')
     = [ReplyText (CHECKING_TEXT ''Bitcoin'') None,
        HttpGet (price_url ''bitcoin''),
        ReplyText (PRICE_TEXT ''Bitcoin'' SERVICE_UNAVAILABLE) None]
   \<and> PRICE_TEXT ''Bitcoin'' SERVICE_UNAVAILABLE
     = MONEY_BAG @ '' Current Bitcoin price: Service temporarily unavailable - please try again later''
   \<and> PRICE_TEXT ''Bitcoin'' SERVICE_UNAVAILABLE \<noteq> PRICE_SORRY_TEXT ''Bitcoin''"
  by (simp add: crypto_handler_def get_crypto_price_def SERVICE_UNAVAILABLE_def
      PRICE_TEXT_def PRICE_SORRY_TEXT_def MONEY_BAG_def CROSS_MARK_def string_eval world_eval)

text \<open>
  C9. The commands set the intent, and a handler that returns has cleared it. But when
  \<^verbatim>\<open>get_crypto_price\<close> raises, the handler is left before the line that deletes the intent:
  the intent is still pending, and the next text message makes another request.
\<close>

theorem intent_kept_when_lookup_raises:
  "raised (crypto_handler (test_world (\<lambda>url. Json WRONG_SHAPE))
      [''intent'' \<mapsto> ''get_price''] ''Bitcoin'') = Some TypeError
   \<and> user_data (crypto_handler (test_world (\<lambda>url. Json WRONG_SHAPE))
      [''intent'' \<mapsto> ''get_price''] ''Bitcoin'') ''intent'' = Some ''get_price''
   \<and> http_calls (effects (crypto_handler (test_world (\<lambda>url. Json WRONG_SHAPE))
        (user_data (crypto_handler (test_world (\<lambda>url. Json WRONG_SHAPE))
           [''intent'' \<mapsto> ''get_price''] ''Bitcoin''))
        ''Ethereum'')) = [price_url ''ethereum'']"
  by (simp add: crypto_handler_def get_crypto_price_def WRONG_SHAPE_def string_eval world_eval)


end
